theory Spec2Isabelle
  imports Complex_Main
begin

section \<open>Errors\<close>

text \<open>
  Every exception the modelled functions can raise is a value of \<open>error\<close>; a function
  that may raise returns \<open>error + 'a\<close>, with \<open>Inl\<close> for the exception.
  \<open>InvalidInputRange\<close> and \<open>InvalidInputType\<close> are the classes \<^verbatim>\<open>cli.py\<close> and
  \<^verbatim>\<open>pydaymet.py\<close> import from \<^verbatim>\<open>.exceptions\<close>; \<open>ServiceError\<close> is imported from
  pygeoogc; \<open>KeyError\<close>, \<open>IndexError\<close> and \<open>ValueError\<close> are Python's
  own. \<open>OtherError\<close> stands for
  any other exception a collaborator raises (a transport failure, for instance).
\<close>

datatype error =
    InvalidInputRange string
  | InvalidInputType string string string
  | ServiceError string
  | KeyError
  | IndexError
  | ValueError
  | OtherError string

section \<open>Region resolution (cli.py)\<close>

text \<open>
  Coordinates are Python floats (binary64). Every binary64 value is a real number and the
  only operations on coordinates in this section are comparisons, which are exact on
  floats, so the model uses \<open>real\<close>. Python reads a decimal literal as the nearest
  binary64 value: \<open>float64 m k\<close> is the value with mantissa \<open>m\<close> and exponent
  \<open>- k\<close>, and \<open>literal_value m k d\<close> says that it is the normalised binary64 value
  nearest to the decimal \<open>d\<close> (less than half a unit in the last place away).
  \<open>sgeom.box(minx, miny, maxx, maxy)\<close> is a record of its four edges.
\<close>

definition float64 :: "int \<Rightarrow> nat \<Rightarrow> real" where
  "float64 m k = real_of_int m / 2 ^ k"

definition literal_value :: "int \<Rightarrow> nat \<Rightarrow> real \<Rightarrow> bool" where
  "literal_value m k d =
     (2 ^ 52 \<le> \<bar>m\<bar> \<and> \<bar>m\<bar> < 2 ^ 53 \<and> \<bar>d - float64 m k\<bar> < 1 / 2 ^ (k + 1))"

record box =
  minx :: real
  miny :: real
  maxx :: real
  maxy :: real

definition sgeom_box :: "real \<Rightarrow> real \<Rightarrow> real \<Rightarrow> real \<Rightarrow> box" where
  "sgeom_box x0 y0 x1 y1 = \<lparr>minx = x0, miny = y0, maxx = x1, maxy = y1\<rparr>"

text \<open>
  The geometries \<^verbatim>\<open>_get_region\<close> is typed for: a point, a polygon (given by the vertices
  of its shell; holes lie inside the shell and do not matter for containment in a convex
  box) and a multi-polygon. Polygons are valid in shapely's sense (non-zero area).
\<close>

datatype geom =
    Point real real
  | Polygon "(real \<times> real) list"
  | MultiPolygon "(real \<times> real) list list"

definition in_interior :: "box \<Rightarrow> real \<times> real \<Rightarrow> bool" where
  "in_interior b p = (minx b < fst p \<and> fst p < maxx b \<and> miny b < snd p \<and> snd p < maxy b)"

definition in_closure :: "box \<Rightarrow> real \<times> real \<Rightarrow> bool" where
  "in_closure b p = (minx b \<le> fst p \<and> fst p \<le> maxx b \<and> miny b \<le> snd p \<and> snd p \<le> maxy b)"

definition on_boundary :: "box \<Rightarrow> real \<times> real \<Rightarrow> bool" where
  "on_boundary b p = (in_closure b p \<and> \<not> in_interior b p)"

text \<open>
  shapely's \<^verbatim>\<open>bbox.contains(geom)\<close>: no point of \<open>geom\<close> lies in the exterior of the box
  and the interiors share a point. For a point that is the open box. A valid polygon has
  an open interior, so it is contained as soon as it lies in the closed box, which for a
  convex box is the case exactly when every vertex does. An empty geometry is not
  contained.
\<close>

fun contains :: "box \<Rightarrow> geom \<Rightarrow> bool" where
  "contains b (Point x y) = in_interior b (x, y)"
| "contains b (Polygon vs) = (vs \<noteq> [] \<and> list_all (in_closure b) vs)"
| "contains b (MultiPolygon ps) =
     (ps \<noteq> [] \<and> list_all (\<lambda>vs. vs \<noteq> [] \<and> list_all (in_closure b) vs) ps)"

text \<open>
  The dictionary literal of \<^verbatim>\<open>_get_region\<close>; a Python dict iterates in insertion order,
  so it is an association list. The edges are the binary64 values of the literals
  \<^verbatim>\<open>box(-136.8989, 6.0761, -6.1376, 69.077)\<close> for na,
  \<^verbatim>\<open>box(-160.3055, 17.9539, -154.7715, 23.5186)\<close> for hi and
  \<^verbatim>\<open>box(-67.9927, 16.8443, -64.1195, 19.9381)\<close> for pr.
\<close>

definition region_bbox :: "(string \<times> box) list" where
  "region_bbox =
     [(''na'', sgeom_box (float64 (- 4816701836151803) 45) (float64 6841080423966468 50)
              (float64 (- 6910323268237289) 50) (float64 4860861741560496 46)),
      (''hi'', sgeom_box (float64 (- 5640248359886258) 45) (float64 5053573584365447 48)
              (float64 (- 5445538044746662) 45) (float64 6619897387267234 48)),
      (''pr'', sgeom_box (float64 (- 4784560912248655) 46) (float64 4741248950207303 48)
              (float64 (- 4512008692299727) 46) (float64 5612076233154730 48))]"

definition na_box :: box where
  "na_box = sgeom_box (float64 (- 4816701836151803) 45) (float64 6841080423966468 50)
     (float64 (- 6910323268237289) 50) (float64 4860861741560496 46)"

definition hi_box :: box where
  "hi_box = sgeom_box (float64 (- 5640248359886258) 45) (float64 5053573584365447 48)
     (float64 (- 5445538044746662) 45) (float64 6619897387267234 48)"

definition pr_box :: box where
  "pr_box = sgeom_box (float64 (- 4784560912248655) 46) (float64 4741248950207303 48)
     (float64 (- 4512008692299727) 46) (float64 5612076233154730 48)"

definition outside_msg :: "string \<Rightarrow> string" where
  "outside_msg gid =
     ''Input location with ID of '' @ gid @ '' is outside the Daymet spatial range.''"

text \<open>The \<^verbatim>\<open>for region, bbox in region_bbox.items()\<close> loop with its early return.\<close>

fun first_containing :: "(string \<times> box) list \<Rightarrow> geom \<Rightarrow> string option" where
  "first_containing [] g = None"
| "first_containing ((region, bbox) # rest) g =
     (if contains bbox g then Some region else first_containing rest g)"

text \<open>\<^verbatim>\<open>_get_region\<close> (the leading underscore of a Python name is written \<open>u_\<close>).\<close>

definition u_get_region :: "string \<Rightarrow> geom \<Rightarrow> error + string" where
  "u_get_region gid g =
     (case first_containing region_bbox g of
        Some region \<Rightarrow> Inr region
      | None \<Rightarrow> Inl (InvalidInputRange (outside_msg gid)))"

text \<open>
  \<^verbatim>\<open>get_region\<close>: the list comprehension over the rows of the frame; the first row
  that raises ends it.
\<close>

fun get_region :: "(string \<times> geom) list \<Rightarrow> error + string list" where
  "get_region [] = Inr []"
| "get_region ((i, p) # rows) =
     (case u_get_region i p of
        Inl e \<Rightarrow> Inl e
      | Inr r \<Rightarrow> (case get_region rows of Inl e \<Rightarrow> Inl e | Inr rs \<Rightarrow> Inr (r # rs)))"

section \<open>Request building (pydaymet.py)\<close>

text \<open>
  Python's \<^verbatim>\<open>str\<close> of a non-negative integer, as the f-strings \<^verbatim>\<open>{code}\<close> and
  \<^verbatim>\<open>{s.year}\<close> print it, and of any integer.
\<close>

definition digit_char :: "nat \<Rightarrow> char" where
  "digit_char d = ''0123456789'' ! d"

fun str_nat :: "nat \<Rightarrow> string" where
  "str_nat n =
     (if n < 10 then [digit_char n] else str_nat (n div 10) @ [digit_char (n mod 10)])"

declare str_nat.simps [simp del]

definition str_int :: "int \<Rightarrow> string" where
  "str_int i = (if i < 0 then CHR ''-'' # str_nat (nat (- i)) else str_nat (nat i))"

text \<open>
  A pandas timestamp, by its calendar fields. \<^verbatim>\<open>DATE_REQ = "%Y-%m-%dT%H:%M:%SZ"\<close>;
  \<open>strftime_DATE_REQ\<close> is \<^verbatim>\<open>t.strftime(DATE_REQ)\<close>: two digits for every field
  but the year (a pandas timestamp lies in the years 1677 to 2262, so \<^verbatim>\<open>%Y\<close> prints
  four digits).
\<close>

record timestamp =
  year :: nat
  month :: nat
  day :: nat
  hour :: nat
  minute :: nat
  second :: nat

definition pad2 :: "nat \<Rightarrow> string" where
  "pad2 n = (if n < 10 then CHR ''0'' # str_nat n else str_nat n)"

definition strftime_DATE_REQ :: "timestamp \<Rightarrow> string" where
  "strftime_DATE_REQ t =
     str_nat (year t) @ ''-'' @ pad2 (month t) @ ''-'' @ pad2 (day t) @ ''T'' @
     pad2 (hour t) @ '':'' @ pad2 (minute t) @ '':'' @ pad2 (second t) @ ''Z''"

text \<open>
  A request descriptor is the pair \<^verbatim>\<open>(url, {"params": {...}})\<close>. Python dicts keep
  insertion order: both levels are association lists in the order of the literal.
\<close>

type_synonym params = "(string \<times> string) list"
type_synonym kwds = "(string \<times> params) list"
type_synonym descriptor = "string \<times> kwds"
type_synonym window = "timestamp \<times> timestamp"

text \<open>
  \<^verbatim>\<open>_get_filename\<close>: the dict from endpoint code to the lambda that names the file.
\<close>

definition u_get_filename :: "string \<Rightarrow> (int \<times> (string \<Rightarrow> string)) list" where
  "u_get_filename region =
     [(1840, \<lambda>v. ''daily_'' @ region @ ''_'' @ v),
      (1855, \<lambda>v. if v = ''prcp'' then v @ ''_monttl_'' @ region
                  else v @ ''_monavg_'' @ region),
      (1852, \<lambda>v. if v = ''prcp'' then v @ ''_annttl_'' @ region
                  else v @ ''_annavg_'' @ region)]"

text \<open>A comprehension whose element expression may raise: the first exception ends it.\<close>

fun traverse :: "('a \<Rightarrow> error + 'b) \<Rightarrow> 'a list \<Rightarrow> error + 'b list" where
  "traverse f [] = Inr []"
| "traverse f (x # xs) =
     (case f x of
        Inl e \<Rightarrow> Inl e
      | Inr y \<Rightarrow> (case traverse f xs of Inl e \<Rightarrow> Inl e | Inr ys \<Rightarrow> Inr (y # ys)))"

definition bind_err :: "error + 'a \<Rightarrow> ('a \<Rightarrow> error + 'b) \<Rightarrow> error + 'b" where
  "bind_err m k = (case m of Inl e \<Rightarrow> Inl e | Inr x \<Rightarrow> k x)"

text \<open>
  The URL both builders format:
  \<^verbatim>\<open>f"{base_url}/daymet_v4_{time_scale[code](v)}_{s.year}.nc"\<close> with
  \<^verbatim>\<open>base_url = f"{ServiceURL().restful.daymet}/{code}"\<close>. \<open>svc\<close> is
  \<^verbatim>\<open>ServiceURL().restful.daymet\<close>, a constant of pygeoogc. The lookup
  \<^verbatim>\<open>time_scale[code]\<close> raises \<open>KeyError\<close> for a code that is not a key, and it is
  evaluated once per element, so an empty comprehension never raises.
\<close>

definition request_url :: "string \<Rightarrow> int \<Rightarrow> string \<Rightarrow> string \<Rightarrow> timestamp \<Rightarrow> error + string" where
  "request_url svc code region v s =
     (case map_of (u_get_filename region) code of
        None \<Rightarrow> Inl KeyError
      | Some name \<Rightarrow>
          Inr ((svc @ ''/'' @ str_int code) @ ''/daymet_v4_'' @ name v @ ''_'' @
               str_nat (year s) @ ''.nc''))"

text \<open>
  \<^verbatim>\<open>_coord_urls\<close>: a list (one entry per variable) of lists (one descriptor per
  window). \<open>str_float\<close> is Python's \<^verbatim>\<open>f"{x}"\<close> for a float.
\<close>

definition coord_params :: "(real \<Rightarrow> string) \<Rightarrow> real \<Rightarrow> real \<Rightarrow> string \<Rightarrow> window \<Rightarrow> params" where
  "coord_params str_float lon lat v w =
     [(''var'', v),
      (''longitude'', str_float lon),
      (''latitude'', str_float lat),
      (''time_start'', strftime_DATE_REQ (fst w)),
      (''time_end'', strftime_DATE_REQ (snd w)),
      (''accept'', ''csv'')]"

definition coord_descriptor ::
  "string \<Rightarrow> (real \<Rightarrow> string) \<Rightarrow> int \<Rightarrow> real \<times> real \<Rightarrow> string \<Rightarrow> string \<Rightarrow> window \<Rightarrow> error + descriptor" where
  "coord_descriptor svc str_float code coord region v w =
     bind_err (request_url svc code region v (fst w))
       (\<lambda>url. Inr (url, [(''params'', coord_params str_float (fst coord) (snd coord) v w)]))"

definition u_coord_urls ::
  "string \<Rightarrow> (real \<Rightarrow> string) \<Rightarrow> int \<Rightarrow> real \<times> real \<Rightarrow> string \<Rightarrow> string list \<Rightarrow> window list
     \<Rightarrow> error + descriptor list list" where
  "u_coord_urls svc str_float code coord region variables dates =
     traverse (\<lambda>v. traverse (coord_descriptor svc str_float code coord region v) dates)
       variables"

text \<open>
  \<^verbatim>\<open>_gridded_urls\<close>: one flat list over \<^verbatim>\<open>itertools.product(variables, dates)\<close>;
  \<open>bounds\<close> is \<^verbatim>\<open>(west, south, east, north)\<close>.
\<close>

definition gridded_params ::
  "(real \<Rightarrow> string) \<Rightarrow> real \<times> real \<times> real \<times> real \<Rightarrow> string \<Rightarrow> window \<Rightarrow> params" where
  "gridded_params str_float bounds v w =
     (case bounds of (west, south, east, north) \<Rightarrow>
        [(''var'', v),
         (''north'', str_float north),
         (''west'', str_float west),
         (''east'', str_float east),
         (''south'', str_float south),
         (''disableProjSubset'', ''on''),
         (''horizStride'', ''1''),
         (''time_start'', strftime_DATE_REQ (fst w)),
         (''time_end'', strftime_DATE_REQ (snd w)),
         (''timeStride'', ''1''),
         (''addLatLon'', ''true''),
         (''accept'', ''netcdf'')])"

definition gridded_descriptor ::
  "string \<Rightarrow> (real \<Rightarrow> string) \<Rightarrow> int \<Rightarrow> real \<times> real \<times> real \<times> real \<Rightarrow> string \<Rightarrow> string \<times> window
     \<Rightarrow> error + descriptor" where
  "gridded_descriptor svc str_float code bounds region vw =
     bind_err (request_url svc code region (fst vw) (fst (snd vw)))
       (\<lambda>url. Inr (url, [(''params'', gridded_params str_float bounds (fst vw) (snd vw))]))"

definition u_gridded_urls ::
  "string \<Rightarrow> (real \<Rightarrow> string) \<Rightarrow> int \<Rightarrow> real \<times> real \<times> real \<times> real \<Rightarrow> string \<Rightarrow> string list \<Rightarrow> window list
     \<Rightarrow> error + descriptor list" where
  "u_gridded_urls svc str_float code bounds region variables dates =
     traverse (gridded_descriptor svc str_float code bounds region)
       (List.product variables dates)"

text \<open>
  The naming convention as the specification words it: the daily form for endpoint 1840,
  the total suffix for \<open>prcp\<close> and the average suffix for every other variable at 1855
  (monthly) and 1852 (annual).
\<close>

definition spec_filename :: "int \<Rightarrow> string \<Rightarrow> string \<Rightarrow> string option" where
  "spec_filename code region v =
     (if code = 1840 then Some (''daily_'' @ region @ ''_'' @ v)
      else if code = 1855 then
        Some (if v = ''prcp'' then ''prcp_monttl_'' @ region else v @ ''_monavg_'' @ region)
      else if code = 1852 then
        Some (if v = ''prcp'' then ''prcp_annttl_'' @ region else v @ ''_annavg_'' @ region)
      else None)"

section \<open>Collaborators of the two entry points\<close>

text \<open>
  \<^verbatim>\<open>get_bycoords\<close> and \<^verbatim>\<open>get_bygeom\<close> call the \<^verbatim>\<open>Daymet\<close> class of \<^verbatim>\<open>core.py\<close>,
  \<^verbatim>\<open>potential_et\<close> of \<^verbatim>\<open>pet.py\<close>, and the libraries async_retriever, pandas, xarray,
  pygeoutils, pygeoogc and shapely. None of them is in the source files at hand, so each
  is a field of the record \<open>env\<close>, and the two functions are modelled for every \<open>env\<close>.
\<close>

datatype dates_arg = DatesTuple string string | DatesYear int | DatesList "int list"

datatype geom_arg = GeomShape geom | GeomBBox real real real real

text \<open>The attributes of a \<^verbatim>\<open>Daymet\<close> object that the two functions read.\<close>

record daymet =
  dm_variables :: "string list"
  dm_region :: string
  dm_time_codes :: "(string \<times> int) list"
  dm_units :: "(string \<times> string) list"
  dm_region_bbox :: "(string \<times> box) list"
  dm_invalid_bbox_msg :: string

text \<open>A pandas frame: its index, its column labels, its rows (\<open>None\<close> is NaN).\<close>

record frame =
  index :: "timestamp list"
  columns :: "string list"
  cells :: "real option list list"

text \<open>
  An xarray dataset: data variables and coordinates by name (\<^verbatim>\<open>clm.variables\<close> is both,
  \<^verbatim>\<open>for v in clm\<close> iterates over the data variables only) and the attribute dicts.
\<close>

record affine =
  aff_a :: real
  aff_b :: real
  aff_c :: real
  aff_d :: real
  aff_e :: real
  aff_f :: real

datatype attr = AStr string | AFloats "real list" | ATransform affine

record data_array =
  da_attrs :: "string \<rightharpoonup> attr"
  da_values :: "real option list"

record dataset =
  data_vars :: "(string \<times> data_array) list"
  coords :: "(string \<times> data_array) list"
  attrs :: "string \<rightharpoonup> attr"

datatype xr_obj = XrDataset dataset | XrDataArray data_array

record env =
  Daymet :: "string list option \<Rightarrow> string option \<Rightarrow> string \<Rightarrow> string \<Rightarrow> error + daymet"
  check_dates :: "daymet \<Rightarrow> dates_arg \<Rightarrow> error + unit"
  dates_tolist :: "daymet \<Rightarrow> dates_arg \<Rightarrow> error + window list"
  years_tolist :: "daymet \<Rightarrow> dates_arg \<Rightarrow> error + window list"
  match_crs :: "(real \<times> real) list \<Rightarrow> string \<Rightarrow> string \<Rightarrow> error + (real \<times> real) list"
  restful_daymet :: string
  py_str_float :: "real \<Rightarrow> string"
  retrieve :: "string list \<Rightarrow> kwds list \<Rightarrow> error + string list"
  read_csv :: "string \<Rightarrow> error + frame"
  concat_rows :: "frame list \<Rightarrow> error + frame"
  concat_cols :: "frame list \<Rightarrow> error + frame"
  potential_et_df ::
    "frame \<Rightarrow> real \<times> real \<Rightarrow> string \<Rightarrow> (string \<times> real) list option \<Rightarrow> error + frame"
  geo2polygon :: "geom_arg \<Rightarrow> string \<Rightarrow> string \<Rightarrow> error + geom"
  intersects :: "geom \<Rightarrow> box \<Rightarrow> bool"
  bounds :: "geom \<Rightarrow> real \<times> real \<times> real \<times> real"
  open_mfdataset :: "string list \<Rightarrow> error + dataset"
  get_transform :: "dataset \<Rightarrow> error + affine"
  potential_et_ds :: "dataset \<Rightarrow> string \<Rightarrow> (string \<times> real) list option \<Rightarrow> error + xr_obj"
  xarray_geomask :: "xr_obj \<Rightarrow> geom \<Rightarrow> string \<Rightarrow> error + xr_obj"

definition DEF_CRS :: string where
  "DEF_CRS = ''epsg:4326''"

text \<open>A dict lookup \<^verbatim>\<open>d[k]\<close> raises \<open>KeyError\<close> for a missing key.\<close>

definition getitem :: "('k \<times> 'v) list \<Rightarrow> 'k \<Rightarrow> error + 'v" where
  "getitem d k = (case map_of d k of None \<Rightarrow> Inl KeyError | Some v \<Rightarrow> Inr v)"

text \<open>The steps both entry points begin with (lines 103 to 109 and 218 to 224).\<close>

definition dates_itr :: "env \<Rightarrow> daymet \<Rightarrow> dates_arg \<Rightarrow> error + window list" where
  "dates_itr E dm dates =
     (case dates of
        DatesTuple s e \<Rightarrow> dates_tolist E dm dates
      | _ \<Rightarrow> years_tolist E dm dates)"

section \<open>Point mode: get_bycoords (pydaymet.py)\<close>

text \<open>
  Python's \<^verbatim>\<open>s.replace(old, new)\<close>: the occurrences of \<open>old\<close> are replaced from left
  to right without overlap; an empty \<open>old\<close> matches before every character and at the
  end.
\<close>

function str_replace :: "string \<Rightarrow> string \<Rightarrow> string \<Rightarrow> string" where
  "str_replace old new s =
     (if old = [] then new @ concat (map (\<lambda>c. c # new) s)
      else if s = [] then []
      else if take (length old) s = old then new @ str_replace old new (drop (length old) s)
      else hd s # str_replace old new (tl s))"
  by pat_completeness auto
termination
  by (relation "measure (\<lambda>(old, new, s). length s)") auto

declare str_replace.simps [simp del]

text \<open>Line 135: \<^verbatim>\<open>c.replace('[unit="', " (").replace('"]', ")")\<close>.\<close>

definition relabel :: "string \<Rightarrow> string" where
  \<open>relabel c = str_replace ''"]'' '')'' (str_replace ''[unit="'' '' ('' c)\<close>

text \<open>
  A name or a unit of a raw label \<^verbatim>\<open>name[unit="u"]\<close> contains neither an opening
  bracket nor a double quote; the label then has one reading only.
\<close>

definition clean :: "string \<Rightarrow> bool" where
  "clean s = (CHR ''['' \<notin> set s \<and> CHR 0x22 \<notin> set s)"

text \<open>Lines 137 and 138: the rename, when a column has the label \<^verbatim>\<open>prcp (mm)\<close>.\<close>

definition rename_prcp :: "string list \<Rightarrow> string list" where
  "rename_prcp cols =
     (if ''prcp (mm)'' \<in> set cols
      then map (\<lambda>c. if c = ''prcp (mm)'' then ''prcp (mm/day)'' else c) cols
      else cols)"

text \<open>
  Line 140: the index is printed as \<^verbatim>\<open>%Y-%m-%d\<close> and parsed again, which sets the
  time of day to midnight.
\<close>

definition to_date :: "timestamp \<Rightarrow> timestamp" where
  "to_date t = t\<lparr>hour := 0, minute := 0, second := 0\<rparr>"

text \<open>
  Line 122: \<^verbatim>\<open>tuple(zip(*u))\<close> is the pair (urls, kwds) of a non-empty list and the
  empty tuple for an empty one; unpacking the empty tuple in \<^verbatim>\<open>for u, k in ...\<close>
  raises \<open>ValueError\<close>.
\<close>

definition unzip_desc :: "descriptor list \<Rightarrow> (string list \<times> kwds list) option" where
  "unzip_desc u = (if u = [] then None else Some (map fst u, map snd u))"

text \<open>
  The inner generator of lines 127 to 130: one variable's windows are fetched in one call
  of \<^verbatim>\<open>retrieve\<close>, decoded in the order returned and concatenated row-wise.
\<close>

definition fetch_variable :: "env \<Rightarrow> (string list \<times> kwds list) option \<Rightarrow> error + frame" where
  "fetch_variable E uk =
     (case uk of
        None \<Rightarrow> Inl ValueError
      | Some (u, k) \<Rightarrow>
          bind_err (retrieve E u k) (\<lambda>rs.
          bind_err (traverse (read_csv E) rs) (\<lambda>fs.
          concat_rows E fs)))"

text \<open>Lines 119 to 140: from the request plan to the labelled, date-indexed frame.\<close>

definition assemble :: "env \<Rightarrow> descriptor list list \<Rightarrow> error + frame" where
  "assemble E url_kwds =
     bind_err (traverse (fetch_variable E) (map unzip_desc url_kwds)) (\<lambda>fs.
     bind_err (concat_cols E fs) (\<lambda>clm.
     Inr (clm\<lparr>columns := rename_prcp (map relabel (columns clm)),
              index := map to_date (index clm)\<rparr>)))"

text \<open>
  \<^verbatim>\<open>get_bycoords\<close>: lines 103 to 121 (validation and the request plan, with the
  coordinates in the archive's reference) are \<open>coords_plan\<close>. \<open>xy\<close> is the
  \<^verbatim>\<open>coords\<close> tuple, of any length. The \<^verbatim>\<open>ssl\<close> argument is only handed to the
  transport and is part of \<open>retrieve\<close>.
\<close>

definition coords_plan ::
  "env \<Rightarrow> real list \<Rightarrow> dates_arg \<Rightarrow> string \<Rightarrow> string list option \<Rightarrow> string \<Rightarrow> string
     \<Rightarrow> string option \<Rightarrow> error + (real \<times> real) \<times> descriptor list list" where
  "coords_plan E xy dates crs variables region time_scale pet =
     bind_err (Daymet E variables pet time_scale region) (\<lambda>dm.
     bind_err (check_dates E dm dates) (\<lambda>_.
     bind_err (dates_itr E dm dates) (\<lambda>ds.
     if length xy \<noteq> 2 then Inl (InvalidInputType ''coords'' ''tuple'' ''(lon, lat)'')
     else
     bind_err (match_crs E [(xy ! 0, xy ! 1)] crs DEF_CRS) (\<lambda>cs.
     bind_err (case cs of [] \<Rightarrow> Inl IndexError | c # _ \<Rightarrow> Inr c) (\<lambda>c.
     bind_err (getitem (dm_region_bbox dm) region) (\<lambda>bbox.
     if \<not> contains bbox (Point (fst c) (snd c))
     then Inl (InvalidInputRange (dm_invalid_bbox_msg dm))
     else
     bind_err (getitem (dm_time_codes dm) time_scale) (\<lambda>code.
     bind_err (u_coord_urls (restful_daymet E) (py_str_float E) code c (dm_region dm)
                 (dm_variables dm) ds) (\<lambda>url_kwds.
     Inr (c, url_kwds)))))))))"

definition get_bycoords ::
  "env \<Rightarrow> real list \<Rightarrow> dates_arg \<Rightarrow> string \<Rightarrow> string list option \<Rightarrow> string \<Rightarrow> string
     \<Rightarrow> string option \<Rightarrow> (string \<times> real) list option \<Rightarrow> error + frame" where
  "get_bycoords E xy dates crs variables region time_scale pet pet_params =
     bind_err (coords_plan E xy dates crs variables region time_scale pet)
       (\<lambda>(c, url_kwds).
     bind_err (assemble E url_kwds) (\<lambda>clm.
     case pet of
       None \<Rightarrow> Inr clm
     | Some method \<Rightarrow> potential_et_df E clm c method pet_params))"

text \<open>
  Modelled from the spec: the transport (async_retriever's \<^verbatim>\<open>retrieve\<close>) is not in the
  source files. Section 5 of the specification describes it: the fetches of a batch
  complete in some order, each worker writes its payload into the buffer slot of its
  request, a failed fetch aborts the batch, and the buffer is handed over in request
  order. \<open>answer\<close> is what the archive returns for a request; \<open>sched\<close> gives, for a
  batch of URLs, the order in which its fetches complete.
\<close>

fun fill_buffer ::
  "(nat \<Rightarrow> error + string) \<Rightarrow> nat list \<Rightarrow> string option list \<Rightarrow> error + string option list" where
  "fill_buffer f [] buf = Inr buf"
| "fill_buffer f (i # rest) buf =
     (case f i of Inl e \<Rightarrow> Inl e | Inr p \<Rightarrow> fill_buffer f rest (buf[i := Some p]))"

definition buffer_retrieve ::
  "(string list \<Rightarrow> nat list) \<Rightarrow> (string \<Rightarrow> kwds \<Rightarrow> error + string)
     \<Rightarrow> string list \<Rightarrow> kwds list \<Rightarrow> error + string list" where
  "buffer_retrieve sched answer u k =
     (let reqs = zip u k in
      bind_err (fill_buffer (\<lambda>i. answer (fst (reqs ! i)) (snd (reqs ! i)))
                  (filter (\<lambda>i. i < length reqs) (sched u))
                  (replicate (length reqs) None))
        (\<lambda>buf. case those buf of
                  None \<Rightarrow> Inl (OtherError ''fetch not completed'')
                | Some ps \<Rightarrow> Inr ps))"

text \<open>
  The transport that fetches the requests one after the other, in the order of the plan.
\<close>

definition sequential_retrieve ::
  "(string \<Rightarrow> kwds \<Rightarrow> error + string) \<Rightarrow> string list \<Rightarrow> kwds list \<Rightarrow> error + string list" where
  "sequential_retrieve answer u k = traverse (\<lambda>r. answer (fst r) (snd r)) (zip u k)"

text \<open>Every fetch of the batch \<open>u\<close> completes at some point of the schedule.\<close>

definition covers :: "(string list \<Rightarrow> nat list) \<Rightarrow> string list \<Rightarrow> bool" where
  "covers sched u = list_all (\<lambda>i. i \<in> set (sched u)) [0..<length u]"

section \<open>Grid mode: get_bygeom (pydaymet.py)\<close>

definition service_msg :: string where
  "service_msg =
     ''The service did NOT process your request successfully. '' @
     ''Check your inputs and try again.''"

text \<open>The \<^verbatim>\<open>except ValueError\<close> clause of lines 250 to 255.\<close>

definition except_ValueError :: "error + 'a \<Rightarrow> error + 'a" where
  "except_ValueError m =
     (case m of
        Inl ValueError \<Rightarrow> Inl (ServiceError service_msg)
      | Inl e \<Rightarrow> Inl e
      | Inr x \<Rightarrow> Inr x)"

text \<open>
  Lines 241 to 255. The generator handed to \<^verbatim>\<open>open_mfdataset\<close> calls the transport
  when it is first read, so both calls run inside the \<^verbatim>\<open>try\<close>.
\<close>

definition fetch_merge :: "env \<Rightarrow> string list \<Rightarrow> kwds list \<Rightarrow> error + dataset" where
  "fetch_merge E urls kwds =
     except_ValueError (bind_err (retrieve E urls kwds) (open_mfdataset E))"

text \<open>Python's \<^verbatim>\<open>sep.join(xs)\<close>, and the projection string of lines 263 to 276.\<close>

fun join :: "string \<Rightarrow> string list \<Rightarrow> string" where
  "join sep [] = []"
| "join sep [x] = x"
| "join sep (x # y # ys) = x @ sep @ join sep (y # ys)"

definition daymet_crs :: string where
  "daymet_crs =
     join '' ''
       [''+proj=lcc'', ''+lat_1=25'', ''+lat_2=60'', ''+lat_0=42.5'', ''+lon_0=-100'',
        ''+x_0=0'', ''+y_0=0'', ''+ellps=WGS84'', ''+units=km'', ''+no_defs'']"

definition variable_names :: "dataset \<Rightarrow> string list" where
  "variable_names ds = map fst (data_vars ds) @ map fst (coords ds)"

definition update_attrs ::
  "string \<Rightarrow> string \<Rightarrow> attr \<Rightarrow> (string \<times> data_array) list \<Rightarrow> (string \<times> data_array) list" where
  "update_attrs name key val vs =
     map (\<lambda>(n, da). if n = name then (n, da\<lparr>da_attrs := (da_attrs da)(key \<mapsto> val)\<rparr>)
                    else (n, da)) vs"

text \<open>Lines 257 to 259: the unit of every variable of the table that the dataset has.\<close>

fun set_units :: "(string \<times> string) list \<Rightarrow> dataset \<Rightarrow> dataset" where
  "set_units [] ds = ds"
| "set_units ((k, v) # rest) ds =
     set_units rest
       (if k \<in> set (variable_names ds)
        then ds\<lparr>data_vars := update_attrs k ''units'' (AStr v) (data_vars ds),
                coords := update_attrs k ''units'' (AStr v) (coords ds)\<rparr>
        else ds)"

text \<open>
  Line 261: xarray's \<^verbatim>\<open>drop_vars\<close> raises \<open>ValueError\<close> for a name the dataset does
  not have.
\<close>

definition drop_vars :: "string \<Rightarrow> dataset \<Rightarrow> error + dataset" where
  "drop_vars name ds =
     (if name \<notin> set (variable_names ds) then Inl ValueError
      else Inr (ds\<lparr>data_vars := filter (\<lambda>(n, da). n \<noteq> name) (data_vars ds),
                   coords := filter (\<lambda>(n, da). n \<noteq> name) (coords ds)\<rparr>))"

text \<open>Lines 257 to 281: units, projection variable, dataset-level metadata.\<close>

definition normalize_merged :: "env \<Rightarrow> daymet \<Rightarrow> dataset \<Rightarrow> error + dataset" where
  "normalize_merged E dm clm =
     bind_err (drop_vars ''lambert_conformal_conic'' (set_units (dm_units dm) clm)) (\<lambda>clm1.
     let clm2 = clm1\<lparr>attrs := (attrs clm1)(''crs'' \<mapsto> AStr daymet_crs,
                                            ''nodatavals'' \<mapsto> AFloats [0])\<rparr> in
     bind_err (get_transform E clm2) (\<lambda>transform.
     Inr (clm2\<lparr>attrs := (attrs clm2)(''transform'' \<mapsto> ATransform transform,
                                      ''res'' \<mapsto> AFloats [aff_a transform, aff_e transform])\<rparr>)))"

text \<open>Lines 286 to 289: the projection and the nodata value on every data variable.\<close>

definition propagate :: "xr_obj \<Rightarrow> xr_obj" where
  "propagate obj =
     (case obj of
        XrDataset ds \<Rightarrow>
          XrDataset (ds\<lparr>data_vars :=
            map (\<lambda>(n, da). (n, da\<lparr>da_attrs := (da_attrs da)(''crs'' \<mapsto> AStr daymet_crs,
                                                          ''nodatavals'' \<mapsto> AFloats [0])\<rparr>))
              (data_vars ds)\<rparr>)
      | other \<Rightarrow> other)"

text \<open>Lines 218 to 239: validation and the request plan, with the geometry it is for.\<close>

definition gridded_plan ::
  "env \<Rightarrow> geom_arg \<Rightarrow> dates_arg \<Rightarrow> string \<Rightarrow> string list option \<Rightarrow> string \<Rightarrow> string
     \<Rightarrow> string option \<Rightarrow> error + daymet \<times> geom \<times> string list \<times> kwds list" where
  "gridded_plan E geometry dates crs variables region time_scale pet =
     bind_err (Daymet E variables pet time_scale region) (\<lambda>dm.
     bind_err (check_dates E dm dates) (\<lambda>_.
     bind_err (dates_itr E dm dates) (\<lambda>ds.
     bind_err (geo2polygon E geometry crs DEF_CRS) (\<lambda>g.
     bind_err (getitem (dm_region_bbox dm) region) (\<lambda>bbox.
     if \<not> intersects E g bbox then Inl (InvalidInputRange (dm_invalid_bbox_msg dm))
     else
     bind_err (getitem (dm_time_codes dm) time_scale) (\<lambda>code.
     bind_err (u_gridded_urls (restful_daymet E) (py_str_float E) code (bounds E g)
                 (dm_region dm) (dm_variables dm) ds) (\<lambda>plan.
     if plan = [] then Inl ValueError
     else Inr (dm, g, map fst plan, map snd plan))))))))"

text \<open>\<^verbatim>\<open>get_bygeom\<close>.\<close>

definition get_bygeom ::
  "env \<Rightarrow> geom_arg \<Rightarrow> dates_arg \<Rightarrow> string \<Rightarrow> string list option \<Rightarrow> string \<Rightarrow> string
     \<Rightarrow> string option \<Rightarrow> (string \<times> real) list option \<Rightarrow> error + xr_obj" where
  "get_bygeom E geometry dates crs variables region time_scale pet pet_params =
     bind_err (gridded_plan E geometry dates crs variables region time_scale pet)
       (\<lambda>(dm, g, urls, kwds).
     bind_err (fetch_merge E urls kwds) (\<lambda>merged.
     bind_err (normalize_merged E dm merged) (\<lambda>clm.
     bind_err (case pet of
                 None \<Rightarrow> Inr (XrDataset clm)
               | Some method \<Rightarrow> potential_et_ds E clm method pet_params) (\<lambda>obj.
     xarray_geomask E (propagate obj) g DEF_CRS))))"

section \<open>Reading a descriptor\<close>

text \<open>The query parameter \<open>key\<close> of a descriptor, and the names of all of them.\<close>

definition param :: "descriptor \<Rightarrow> string \<Rightarrow> string option" where
  "param d key = (case map_of (snd d) ''params'' of None \<Rightarrow> None | Some ps \<Rightarrow> map_of ps key)"

definition param_names :: "descriptor \<Rightarrow> string list" where
  "param_names d = (case map_of (snd d) ''params'' of None \<Rightarrow> [] | Some ps \<Rightarrow> map fst ps)"

text \<open>The URL that embeds the specification's file name.\<close>

definition spec_url :: "string \<Rightarrow> int \<Rightarrow> string \<Rightarrow> string \<Rightarrow> timestamp \<Rightarrow> string option" where
  "spec_url svc code region v s =
     map_option
       (\<lambda>fname. svc @ ''/'' @ str_int code @ ''/daymet_v4_'' @ fname @ ''_'' @
                 str_nat (year s) @ ''.nc'')
       (spec_filename code region v)"

text \<open>The window of a whole calendar year, for the examples.\<close>

definition year_window :: "nat \<Rightarrow> window" where
  "year_window y =
     (\<lparr>year = y, month = 1, day = 1, hour = 0, minute = 0, second = 0\<rparr>,
      \<lparr>year = y, month = 12, day = 31, hour = 0, minute = 0, second = 0\<rparr>)"

section \<open>An environment for the examples\<close>

text \<open>
  Simple stand-ins for the collaborators, to run the two entry points on concrete
  inputs: the archive answers a request with its URL, every payload decodes to a frame
  with one row, and the merged dataset has one data variable beside the projection
  variable.
\<close>

definition example_daymet :: "string list option \<Rightarrow> string \<Rightarrow> daymet" where
  "example_daymet variables region =
     \<lparr>dm_variables = (case variables of None \<Rightarrow> [''prcp'', ''tmin''] | Some vs \<Rightarrow> vs),
      dm_region = region,
      dm_time_codes = [(''daily'', 1840), (''monthly'', 1855), (''annual'', 1852)],
      dm_units = [(''prcp'', ''mm/day''), (''tmin'', ''degrees C'')],
      dm_region_bbox = region_bbox,
      dm_invalid_bbox_msg = ''outside''\<rparr>"

definition example_frame :: "string \<Rightarrow> frame" where
  \<open>example_frame payload =
     \<lparr>index = [\<lparr>year = (if take 4 (drop 31 payload) = ''2001'' then 2001 else 2000),
                 month = 1, day = 1, hour = 12, minute = 0, second = 0\<rparr>],
      columns = [if take 4 (drop 26 payload) = ''prcp'' then ''prcp[unit="mm"]''
                 else ''tmin[unit="degrees C"]''],
      cells = [[Some 1]]\<rparr>\<close>

definition example_dataset :: dataset where
  "example_dataset =
     \<lparr>data_vars =
        [(''prcp'', \<lparr>da_attrs = Map.empty, da_values = [Some 1]\<rparr>),
         (''lambert_conformal_conic'', \<lparr>da_attrs = Map.empty, da_values = []\<rparr>)],
      coords = [(''x'', \<lparr>da_attrs = Map.empty, da_values = [Some 0]\<rparr>)],
      attrs = Map.empty\<rparr>"

definition example_env :: env where
  "example_env =
     \<lparr>Daymet = (\<lambda>variables pet time_scale region. Inr (example_daymet variables region)),
      check_dates = (\<lambda>dm dates. Inr ()),
      dates_tolist = (\<lambda>dm dates. Inr [year_window 2000]),
      years_tolist = (\<lambda>dm dates. Inr [year_window 2000, year_window 2001]),
      match_crs = (\<lambda>cs crs_in crs_out. Inr cs),
      restful_daymet = ''h'',
      py_str_float = (\<lambda>x. ''0''),
      retrieve = (\<lambda>u k. Inr u),
      read_csv = (\<lambda>payload. Inr (example_frame payload)),
      concat_rows = (\<lambda>fs. case fs of [] \<Rightarrow> Inl ValueError
                         | f # _ \<Rightarrow> Inr (f\<lparr>index := concat (map index fs),
                                            cells := concat (map cells fs)\<rparr>)),
      concat_cols = (\<lambda>fs. case fs of [] \<Rightarrow> Inl ValueError
                         | f # _ \<Rightarrow> Inr (f\<lparr>columns := concat (map columns fs)\<rparr>)),
      potential_et_df = (\<lambda>clm c method ps. Inr clm),
      geo2polygon = (\<lambda>g crs_in crs_out.
                       case g of GeomShape sh \<Rightarrow> Inr sh
                       | GeomBBox w s e n \<Rightarrow> Inr (Polygon [(w, s), (e, s), (e, n), (w, n)])),
      intersects = (\<lambda>g b. True),
      bounds = (\<lambda>g. (0, 0, 1, 1)),
      open_mfdataset = (\<lambda>ps. Inr example_dataset),
      get_transform = (\<lambda>ds. Inr \<lparr>aff_a = 1, aff_b = 0, aff_c = 0, aff_d = 0,
                                   aff_e = - 1, aff_f = 0\<rparr>),
      potential_et_ds = (\<lambda>ds method ps. Inr (XrDataset ds)),
      xarray_geomask = (\<lambda>obj g crs. Inr obj)\<rparr>"

section \<open>Region resolution: properties\<close>

lemma region_bbox_boxes:
  "region_bbox = [(''na'', na_box), (''hi'', hi_box), (''pr'', pr_box)]"
  by (simp add: region_bbox_def na_box_def hi_box_def pr_box_def)

lemma u_get_region_unfold:
  "u_get_region gid g =
     (if contains na_box g then Inr ''na''
      else if contains hi_box g then Inr ''hi''
      else if contains pr_box g then Inr ''pr''
      else Inl (InvalidInputRange (outside_msg gid)))"
  by (simp add: u_get_region_def region_bbox_boxes)

lemma in_closure_pr_na: "in_closure pr_box p \<Longrightarrow> in_closure na_box p"
  by (simp add: in_closure_def pr_box_def na_box_def sgeom_box_def float64_def)

lemma in_interior_pr_na: "in_interior pr_box p \<Longrightarrow> in_interior na_box p"
  by (simp add: in_interior_def pr_box_def na_box_def sgeom_box_def float64_def)

lemma list_all_closure_pr_na:
  "list_all (in_closure pr_box) vs \<Longrightarrow> list_all (in_closure na_box) vs"
  by (induction vs) (simp_all add: in_closure_pr_na)

lemma contains_pr_na: "contains pr_box g \<Longrightarrow> contains na_box g"
proof (cases g)
  case (Point x y)
  assume "contains pr_box g"
  with Point show ?thesis by (simp add: in_interior_pr_na)
next
  case (Polygon vs)
  assume "contains pr_box g"
  with Polygon show ?thesis by (simp add: list_all_closure_pr_na)
next
  case (MultiPolygon ps)
  assume c: "contains pr_box g"
  have "list_all (\<lambda>vs. vs \<noteq> [] \<and> list_all (in_closure pr_box) vs) qs \<Longrightarrow>
        list_all (\<lambda>vs. vs \<noteq> [] \<and> list_all (in_closure na_box) vs) qs" for qs
    by (induction qs) (simp_all add: list_all_closure_pr_na)
  with c MultiPolygon show ?thesis by simp
qed





text \<open>
  Claim C1. A geometry that exactly one of the three region boxes contains gets that
  region's code from \<open>_get_region\<close>; a geometry that none of them contains gets the
  \<open>InvalidInputRange\<close> error and no region.
\<close>

theorem region_of_single_box:
  "((r, b) \<in> set region_bbox \<and> contains b g \<and>
      (\<forall>(r', b') \<in> set region_bbox. r' \<noteq> r \<longrightarrow> \<not> contains b' g)
      \<longrightarrow> u_get_region gid g = Inr r) \<and>
   ((\<forall>(r', b') \<in> set region_bbox. \<not> contains b' g)
      \<longrightarrow> u_get_region gid g = Inl (InvalidInputRange (outside_msg gid)))"
proof (intro conjI impI)
  assume h: "(r, b) \<in> set region_bbox \<and> contains b g \<and>
      (\<forall>(r', b') \<in> set region_bbox. r' \<noteq> r \<longrightarrow> \<not> contains b' g)"
  then have mem: "(r, b) = (''na'', na_box) \<or> (r, b) = (''hi'', hi_box) \<or> (r, b) = (''pr'', pr_box)"
    by (simp add: region_bbox_boxes)
  from h have others: "r \<noteq> ''na'' \<longrightarrow> \<not> contains na_box g" "r \<noteq> ''hi'' \<longrightarrow> \<not> contains hi_box g"
    by (simp_all add: region_bbox_boxes)
  from h have c: "contains b g" by simp
  from mem show "u_get_region gid g = Inr r"
  proof (elim disjE)
    assume "(r, b) = (''na'', na_box)"
    with c show ?thesis by (simp add: u_get_region_unfold)
  next
    assume "(r, b) = (''hi'', hi_box)"
    with c others show ?thesis by (simp add: u_get_region_unfold)
  next
    assume "(r, b) = (''pr'', pr_box)"
    with c others show ?thesis by (simp add: u_get_region_unfold)
  qed
next
  assume "\<forall>(r', b') \<in> set region_bbox. \<not> contains b' g"
  then show "u_get_region gid g = Inl (InvalidInputRange (outside_msg gid))"
    by (simp add: u_get_region_unfold region_bbox_boxes)
qed

theorem region_of_single_box_witness:
  "u_get_region ''a'' (Point (- 100) 40) = Inr ''na'' \<and>
   u_get_region ''b'' (Point (- 157) 20) = Inr ''hi'' \<and>
   u_get_region ''c'' (Point 0 0) = Inl (InvalidInputRange (outside_msg ''c''))"
proof (intro conjI)
  have "(''na'', na_box) \<in> set region_bbox \<and> contains na_box (Point (- 100) 40) \<and>
        (\<forall>(r', b') \<in> set region_bbox. r' \<noteq> ''na'' \<longrightarrow> \<not> contains b' (Point (- 100) 40))"
    by (simp add: region_bbox_boxes na_box_def hi_box_def pr_box_def sgeom_box_def float64_def
        in_interior_def)
  with region_of_single_box [of "''na''" na_box "Point (- 100) 40" "''a''"]
  show "u_get_region ''a'' (Point (- 100) 40) = Inr ''na''" by blast
next
  have "(''hi'', hi_box) \<in> set region_bbox \<and> contains hi_box (Point (- 157) 20) \<and>
        (\<forall>(r', b') \<in> set region_bbox. r' \<noteq> ''hi'' \<longrightarrow> \<not> contains b' (Point (- 157) 20))"
    by (simp add: region_bbox_boxes na_box_def hi_box_def pr_box_def sgeom_box_def float64_def
        in_interior_def)
  with region_of_single_box [of "''hi''" hi_box "Point (- 157) 20" "''b''"]
  show "u_get_region ''b'' (Point (- 157) 20) = Inr ''hi''" by blast
next
  have "\<forall>(r', b') \<in> set region_bbox. \<not> contains b' (Point 0 0)"
    by (simp add: region_bbox_boxes na_box_def hi_box_def pr_box_def sgeom_box_def float64_def
        in_interior_def)
  with region_of_single_box [of "''na''" na_box "Point 0 0" "''c''"]
  show "u_get_region ''c'' (Point 0 0) = Inl (InvalidInputRange (outside_msg ''c''))"
    by blast
qed

text \<open>
  Claim C9. The boxes are tried in the order na, hi, pr, and the na box contains the
  whole pr box, so every geometry that the pr box contains gets the code \<open>na\<close> from
  \<open>_get_region\<close>, never \<open>pr\<close>.
\<close>

theorem region_pr_shadowed_by_na:
  "map fst region_bbox = [''na'', ''hi'', ''pr''] \<and>
   (in_closure pr_box p \<longrightarrow> in_interior na_box p) \<and>
   (map_of region_bbox ''pr'' = Some b \<and> contains b g
      \<longrightarrow> u_get_region gid g = Inr ''na'' \<and> u_get_region gid g \<noteq> Inr ''pr'')"
proof (intro conjI impI)
  show "map fst region_bbox = [''na'', ''hi'', ''pr'']"
    by (simp add: region_bbox_def)
next
  assume "in_closure pr_box p"
  then show "in_interior na_box p"
    by (simp add: in_closure_def in_interior_def pr_box_def na_box_def sgeom_box_def float64_def)
next
  assume h: "map_of region_bbox ''pr'' = Some b \<and> contains b g"
  then have "b = pr_box" by (simp add: region_bbox_boxes)
  with h have "contains na_box g" by (simp add: contains_pr_na)
  then show "u_get_region gid g = Inr ''na''" by (simp add: u_get_region_unfold)
  then show "u_get_region gid g \<noteq> Inr ''pr''" by simp
qed

theorem region_pr_shadowed_by_na_witness:
  "map_of region_bbox ''pr'' = Some pr_box \<and> contains pr_box (Point (- 66) 18) \<and>
   u_get_region ''sj'' (Point (- 66) 18) = Inr ''na''"
proof -
  have h: "map_of region_bbox ''pr'' = Some pr_box \<and> contains pr_box (Point (- 66) 18)"
    by (simp add: region_bbox_boxes pr_box_def sgeom_box_def float64_def in_interior_def)
  with region_pr_shadowed_by_na [of "(- 66, 18)" pr_box "Point (- 66) 18" "''sj''"]
  show ?thesis by blast
qed

lemma region_bbox_literals:
  "literal_value (- 4816701836151803) 45 (- 136.8989)"
  "literal_value 6841080423966468 50 6.0761"
  "literal_value (- 6910323268237289) 50 (- 6.1376)"
  "literal_value 4860861741560496 46 69.077"
  "literal_value (- 5640248359886258) 45 (- 160.3055)"
  "literal_value 5053573584365447 48 17.9539"
  "literal_value (- 5445538044746662) 45 (- 154.7715)"
  "literal_value 6619897387267234 48 23.5186"
  "literal_value (- 4784560912248655) 46 (- 67.9927)"
  "literal_value 4741248950207303 48 16.8443"
  "literal_value (- 4512008692299727) 46 (- 64.1195)"
  "literal_value 5612076233154730 48 19.9381"
  by (simp_all add: literal_value_def float64_def)


lemma boundary_on_edge:
  "on_boundary b p \<Longrightarrow>
     fst p = minx b \<or> fst p = maxx b \<or> snd p = miny b \<or> snd p = maxy b"
  by (auto simp add: on_boundary_def in_closure_def in_interior_def)








section \<open>Request building: properties\<close>

lemma traverse_Inr_length: "traverse f xs = Inr ys \<Longrightarrow> length ys = length xs"
  by (induction xs arbitrary: ys) (auto split: sum.splits)

lemma traverse_Inr_nth:
  "traverse f xs = Inr ys \<Longrightarrow> i < length xs \<Longrightarrow> f (xs ! i) = Inr (ys ! i)"
proof (induction xs arbitrary: ys i)
  case Nil
  then show ?case by simp
next
  case (Cons x xs)
  then show ?case by (cases i) (auto split: sum.splits)
qed

lemma traverse_total:
  "(\<And>x. x \<in> set xs \<Longrightarrow> f x = Inr (g x)) \<Longrightarrow> traverse f xs = Inr (map g xs)"
  by (induction xs) simp_all

lemma filename_refines:
  "map_option (\<lambda>name. name v) (map_of (u_get_filename region) code) =
     spec_filename code region v"
  by (simp add: u_get_filename_def spec_filename_def)

lemma request_url_spec:
  "request_url svc code region v s =
     (case spec_url svc code region v s of None \<Rightarrow> Inl KeyError | Some u \<Rightarrow> Inr u)"
proof (cases "map_of (u_get_filename region) code")
  case None
  with filename_refines [of v region code] have "spec_filename code region v = None"
    by simp
  with None show ?thesis by (simp add: request_url_def spec_url_def)
next
  case (Some name)
  with filename_refines [of v region code] have "spec_filename code region v = Some (name v)"
    by simp
  with Some show ?thesis by (simp add: request_url_def spec_url_def)
qed

lemma concat_nth_uniform:
  "(\<And>u. u \<in> set xss \<Longrightarrow> length u = n) \<Longrightarrow> i < length xss \<Longrightarrow> j < n \<Longrightarrow>
     concat xss ! (i * n + j) = xss ! i ! j"
proof (induction xss arbitrary: i)
  case Nil
  then show ?case by simp
next
  case (Cons u xss)
  show ?case
  proof (cases i)
    case 0
    with Cons.prems show ?thesis by (simp add: nth_append)
  next
    case (Suc k)
    have "concat (u # xss) ! (Suc k * n + j) = (u @ concat xss) ! (n + (k * n + j))"
      by (simp add: add.assoc)
    also have "\<dots> = concat xss ! (k * n + j)"
      using Cons.prems(1) [of u] by (simp add: nth_append)
    also have "\<dots> = xss ! k ! j"
      using Cons.prems Suc by (intro Cons.IH) auto
    finally show ?thesis using Suc by simp
  qed
qed

lemma length_concat_uniform:
  "(\<And>u. u \<in> set xss \<Longrightarrow> length u = n) \<Longrightarrow> length (concat xss) = length xss * n"
  by (induction xss) simp_all

lemma coord_descriptor_Inr:
  "coord_descriptor svc sf code coord region v w = Inr d \<Longrightarrow>
     snd d = [(''params'', coord_params sf (fst coord) (snd coord) v w)] \<and>
     spec_url svc code region v (fst w) = Some (fst d)"
  by (auto simp add: coord_descriptor_def bind_err_def request_url_spec
      split: option.splits sum.splits)

lemma gridded_descriptor_Inr:
  "gridded_descriptor svc sf code bnds region vw = Inr d \<Longrightarrow>
     snd d = [(''params'', gridded_params sf bnds (fst vw) (snd vw))] \<and>
     spec_url svc code region (fst vw) (fst (snd vw)) = Some (fst d)"
  by (auto simp add: gridded_descriptor_def bind_err_def request_url_spec
      split: option.splits sum.splits)

lemma spec_url_valid:
  "code \<in> {1840, 1855, 1852} \<Longrightarrow> \<exists>u. spec_url svc code region v s = Some u"
  by (auto simp add: spec_url_def spec_filename_def)

lemma coord_descriptor_valid:
  "code \<in> {1840, 1855, 1852} \<Longrightarrow>
     \<exists>d. coord_descriptor svc sf code coord region v w = Inr d"
  using spec_url_valid [of code svc region v "fst w"]
  by (auto simp add: coord_descriptor_def bind_err_def request_url_spec)

lemma gridded_descriptor_valid:
  "code \<in> {1840, 1855, 1852} \<Longrightarrow>
     \<exists>d. gridded_descriptor svc sf code bnds region vw = Inr d"
  using spec_url_valid [of code svc region "fst vw" "fst (snd vw)"]
  by (auto simp add: gridded_descriptor_def bind_err_def request_url_spec)

lemma traverse_exists:
  "(\<And>x. x \<in> set xs \<Longrightarrow> \<exists>y. f x = Inr y) \<Longrightarrow> \<exists>ys. traverse f xs = Inr ys"
proof (induction xs)
  case Nil
  then show ?case by simp
next
  case (Cons x xs)
  then obtain y where "f x = Inr y" by auto
  moreover from Cons obtain ys where "traverse f xs = Inr ys" by auto
  ultimately show ?case by simp
qed

lemma traverse_Inr_map_rel:
  "traverse f xs = Inr ys \<Longrightarrow> (\<And>x y. x \<in> set xs \<Longrightarrow> f x = Inr y \<Longrightarrow> h y = g x) \<Longrightarrow>
     map h ys = map g xs"
  by (induction xs arbitrary: ys) (auto split: sum.splits)

lemma param_coord:
  "snd d = [(''params'', coord_params sf lon lat v w)] \<Longrightarrow>
     param d ''var'' = Some v \<and>
     param d ''time_start'' = Some (strftime_DATE_REQ (fst w)) \<and>
     param d ''time_end'' = Some (strftime_DATE_REQ (snd w))"
  by (simp add: param_def coord_params_def)

lemma u_coord_urls_valid:
  assumes valid: "code \<in> {1840, 1855, 1852}"
  shows "\<exists>us. u_coord_urls svc sf code coord region variables dates = Inr us"
proof -
  have inner: "\<exists>ds. traverse (coord_descriptor svc sf code coord region v) dates = Inr ds"
    for v by (rule traverse_exists) (rule coord_descriptor_valid [OF valid])
  show ?thesis
    unfolding u_coord_urls_def by (rule traverse_exists) (rule inner)
qed

lemma u_gridded_urls_valid:
  assumes valid: "code \<in> {1840, 1855, 1852}"
  shows "\<exists>ds. u_gridded_urls svc sf code bnds region variables dates = Inr ds"
  unfolding u_gridded_urls_def
  by (rule traverse_exists) (rule gridded_descriptor_valid [OF valid])

lemma u_coord_urls_nth:
  assumes ok: "u_coord_urls svc sf code coord region variables dates = Inr urls"
    and i: "i < length variables" and j: "j < length dates"
  shows "coord_descriptor svc sf code coord region (variables ! i) (dates ! j)
           = Inr (urls ! i ! j)"
proof -
  from ok have tr: "traverse (\<lambda>v. traverse (coord_descriptor svc sf code coord region v) dates)
                   variables = Inr urls"
    by (simp add: u_coord_urls_def)
  show ?thesis
    using traverse_Inr_nth [OF traverse_Inr_nth [OF tr i] j] .
qed

lemma str_nat_year_window:
  "strftime_DATE_REQ (fst (year_window 2002)) = ''2002-01-01T00:00:00Z''"
  by (simp add: strftime_DATE_REQ_def year_window_def pad2_def str_nat.simps digit_char_def)

text \<open>
  Claim C2. For V variables and W windows \<open>_coord_urls\<close> returns (for each of the three
  endpoint codes) V lists of W descriptors each, V times W descriptors in all, grouped by
  variable: flattened, position \<open>i * W + j\<close> holds the descriptor of the \<open>i\<close>-th variable
  and the \<open>j\<close>-th window, so the windows of one variable are adjacent, in the order
  given, and the variables follow each other in the order given.
\<close>

theorem coord_urls_grouped_by_variable:
  "(code \<in> {1840, 1855, 1852} \<longrightarrow>
      (\<exists>us. u_coord_urls svc sf code coord region variables dates = Inr us)) \<and>
   (u_coord_urls svc sf code coord region variables dates = Inr urls \<longrightarrow>
      length urls = length variables \<and>
      (\<forall>u \<in> set urls. length u = length dates) \<and>
      length (concat urls) = length variables * length dates \<and>
      (\<forall>i < length variables. \<forall>j < length dates.
         concat urls ! (i * length dates + j) = urls ! i ! j \<and>
         param (urls ! i ! j) ''var'' = Some (variables ! i) \<and>
         param (urls ! i ! j) ''time_start'' = Some (strftime_DATE_REQ (fst (dates ! j))) \<and>
         param (urls ! i ! j) ''time_end'' = Some (strftime_DATE_REQ (snd (dates ! j)))))"
proof (intro conjI impI)
  assume "code \<in> {1840, 1855, 1852}"
  then show "\<exists>us. u_coord_urls svc sf code coord region variables dates = Inr us"
    by (rule u_coord_urls_valid)
next
  assume ok: "u_coord_urls svc sf code coord region variables dates = Inr urls"
  then have tr: "traverse (\<lambda>v. traverse (coord_descriptor svc sf code coord region v) dates)
                   variables = Inr urls"
    by (simp add: u_coord_urls_def)
  from tr show len: "length urls = length variables"
    by (rule traverse_Inr_length)
  have row: "traverse (coord_descriptor svc sf code coord region (variables ! i)) dates
               = Inr (urls ! i)" if "i < length variables" for i
    using traverse_Inr_nth [OF tr that] .
  have rowlen: "length (urls ! i) = length dates" if "i < length variables" for i
    using row [OF that] by (rule traverse_Inr_length)
  show uniform: "\<forall>u \<in> set urls. length u = length dates"
    using rowlen len by (auto simp add: in_set_conv_nth)
  then show "length (concat urls) = length variables * length dates"
    using length_concat_uniform [of urls "length dates"] len by simp
  show "\<forall>i < length variables. \<forall>j < length dates.
         concat urls ! (i * length dates + j) = urls ! i ! j \<and>
         param (urls ! i ! j) ''var'' = Some (variables ! i) \<and>
         param (urls ! i ! j) ''time_start'' = Some (strftime_DATE_REQ (fst (dates ! j))) \<and>
         param (urls ! i ! j) ''time_end'' = Some (strftime_DATE_REQ (snd (dates ! j)))"
  proof (intro allI impI)
    fix i j
    assume i: "i < length variables" and j: "j < length dates"
    have "coord_descriptor svc sf code coord region (variables ! i) (dates ! j)
            = Inr (urls ! i ! j)"
      using traverse_Inr_nth [OF row [OF i] j] .
    then have "snd (urls ! i ! j) =
        [(''params'', coord_params sf (fst coord) (snd coord) (variables ! i) (dates ! j))]"
      by (simp add: coord_descriptor_Inr)
    then have p: "param (urls ! i ! j) ''var'' = Some (variables ! i) \<and>
         param (urls ! i ! j) ''time_start'' = Some (strftime_DATE_REQ (fst (dates ! j))) \<and>
         param (urls ! i ! j) ''time_end'' = Some (strftime_DATE_REQ (snd (dates ! j)))"
      by (rule param_coord)
    have "concat urls ! (i * length dates + j) = urls ! i ! j"
      using uniform i j len by (intro concat_nth_uniform) auto
    with p show "concat urls ! (i * length dates + j) = urls ! i ! j \<and>
         param (urls ! i ! j) ''var'' = Some (variables ! i) \<and>
         param (urls ! i ! j) ''time_start'' = Some (strftime_DATE_REQ (fst (dates ! j))) \<and>
         param (urls ! i ! j) ''time_end'' = Some (strftime_DATE_REQ (snd (dates ! j)))"
      by simp
  qed
qed


theorem coord_urls_grouped_by_variable_witness:
  "\<exists>urls. u_coord_urls ''h'' (\<lambda>x. ''0'') 1840 (0, 0) ''na'' [''prcp'', ''tmin'']
             [year_window 2000, year_window 2001, year_window 2002] = Inr urls \<and>
          length (concat urls) = 6 \<and>
          concat urls ! 5 = urls ! 1 ! 2 \<and>
          param (concat urls ! 5) ''var'' = Some ''tmin'' \<and>
          param (concat urls ! 5) ''time_start'' = Some ''2002-01-01T00:00:00Z''"
proof -
  let ?vs = "[''prcp'', ''tmin'']"
  let ?ws = "[year_window 2000, year_window 2001, year_window 2002]"
  have "(1840::int) \<in> {1840, 1855, 1852}" by simp
  with coord_urls_grouped_by_variable
         [where code = 1840 and svc = "''h''" and sf = "\<lambda>x. ''0''" and coord = "(0, 0)"
            and region = "''na''" and variables = ?vs and dates = ?ws]
  obtain urls where ok:
    "u_coord_urls ''h'' (\<lambda>x. ''0'') 1840 (0, 0) ''na'' ?vs ?ws = Inr urls"
    by blast
  from ok coord_urls_grouped_by_variable
         [where code = 1840 and svc = "''h''" and sf = "\<lambda>x. ''0''" and coord = "(0, 0)"
            and region = "''na''" and variables = ?vs and dates = ?ws and urls = urls]
  have len: "length (concat urls) = length ?vs * length ?ws"
    and at: "\<forall>i < length ?vs. \<forall>j < length ?ws.
         concat urls ! (i * length ?ws + j) = urls ! i ! j \<and>
         param (urls ! i ! j) ''var'' = Some (?vs ! i) \<and>
         param (urls ! i ! j) ''time_start'' = Some (strftime_DATE_REQ (fst (?ws ! j))) \<and>
         param (urls ! i ! j) ''time_end'' = Some (strftime_DATE_REQ (snd (?ws ! j)))"
    by blast+
  have "(1::nat) < length ?vs" and "(2::nat) < length ?ws" by simp_all
  with at have "concat urls ! (1 * length ?ws + 2) = urls ! 1 ! 2 \<and>
         param (urls ! 1 ! 2) ''var'' = Some (?vs ! 1) \<and>
         param (urls ! 1 ! 2) ''time_start'' = Some (strftime_DATE_REQ (fst (?ws ! 2)))"
    by blast
  moreover have "1 * length ?ws + 2 = 5" and "?vs ! 1 = ''tmin''"
    and "?ws ! 2 = year_window 2002"
    by simp_all
  ultimately have "concat urls ! 5 = urls ! 1 ! 2 \<and>
         param (concat urls ! 5) ''var'' = Some ''tmin'' \<and>
         param (concat urls ! 5) ''time_start'' = Some ''2002-01-01T00:00:00Z''"
    by (simp only: str_nat_year_window)
  moreover from len have "length (concat urls) = 6" by simp
  ultimately show ?thesis using ok by blast
qed

text \<open>
  Claim C3. The lambdas of \<open>_get_filename\<close> compute the file name of the convention
  (\<open>spec_filename\<close>: the daily form at 1840, the total suffix for \<open>prcp\<close> and the average
  suffix for every other variable at 1855 and 1852), and the URL of every descriptor that
  \<open>_coord_urls\<close> and \<open>_gridded_urls\<close> build embeds that name (\<open>spec_url\<close>).
\<close>

theorem filename_convention:
  "map_option (\<lambda>name. name v) (map_of (u_get_filename region) code) =
     spec_filename code region v \<and>
   (u_coord_urls svc sf code coord region variables dates = Inr urls \<and>
      i < length variables \<and> j < length dates \<longrightarrow>
      spec_url svc code region (variables ! i) (fst (dates ! j)) = Some (fst (urls ! i ! j))) \<and>
   (u_gridded_urls svc sf code bnds region variables dates = Inr ds \<longrightarrow>
      map (\<lambda>d. Some (fst d)) ds =
      map (\<lambda>vw. spec_url svc code region (fst vw) (fst (snd vw)))
        (List.product variables dates))"
proof (intro conjI impI)
  show "map_option (\<lambda>name. name v) (map_of (u_get_filename region) code) =
          spec_filename code region v"
    by (rule filename_refines)
next
  assume "u_coord_urls svc sf code coord region variables dates = Inr urls \<and>
      i < length variables \<and> j < length dates"
  then have "coord_descriptor svc sf code coord region (variables ! i) (dates ! j)
               = Inr (urls ! i ! j)"
    by (simp add: u_coord_urls_nth)
  then show "spec_url svc code region (variables ! i) (fst (dates ! j))
               = Some (fst (urls ! i ! j))"
    by (simp add: coord_descriptor_Inr)
next
  assume "u_gridded_urls svc sf code bnds region variables dates = Inr ds"
  then have "traverse (gridded_descriptor svc sf code bnds region)
               (List.product variables dates) = Inr ds"
    by (simp add: u_gridded_urls_def)
  then show "map (\<lambda>d. Some (fst d)) ds =
      map (\<lambda>vw. spec_url svc code region (fst vw) (fst (snd vw)))
        (List.product variables dates)"
    by (rule traverse_Inr_map_rel) (simp add: gridded_descriptor_Inr)
qed

lemma spec_url_example:
  "spec_url ''h'' 1855 ''na'' ''prcp'' (fst (year_window 2001)) =
     Some ''h/1855/daymet_v4_prcp_monttl_na_2001.nc''"
  "spec_url ''h'' 1855 ''na'' ''tmin'' (fst (year_window 2001)) =
     Some ''h/1855/daymet_v4_tmin_monavg_na_2001.nc''"
  by (simp_all add: spec_url_def spec_filename_def year_window_def str_int_def
      str_nat.simps digit_char_def)

theorem filename_convention_witness:
  "map_option (\<lambda>name. name ''prcp'') (map_of (u_get_filename ''hi'') 1852) =
     Some ''prcp_annttl_hi'' \<and>
   map_option (\<lambda>name. name ''swe'') (map_of (u_get_filename ''hi'') 1840) =
     Some ''daily_hi_swe'' \<and>
   (\<exists>urls. u_coord_urls ''h'' (\<lambda>x. ''0'') 1855 (0, 0) ''na'' [''prcp'', ''tmin'']
             [year_window 2000, year_window 2001] = Inr urls \<and>
          fst (urls ! 0 ! 1) = ''h/1855/daymet_v4_prcp_monttl_na_2001.nc'' \<and>
          fst (urls ! 1 ! 1) = ''h/1855/daymet_v4_tmin_monavg_na_2001.nc'')"
proof (intro conjI)
  show "map_option (\<lambda>name. name ''prcp'') (map_of (u_get_filename ''hi'') 1852) =
     Some ''prcp_annttl_hi''"
    using filename_convention [where v = "''prcp''" and region = "''hi''" and code = 1852]
    by (simp add: spec_filename_def)
next
  show "map_option (\<lambda>name. name ''swe'') (map_of (u_get_filename ''hi'') 1840) =
     Some ''daily_hi_swe''"
    using filename_convention [where v = "''swe''" and region = "''hi''" and code = 1840]
    by (simp add: spec_filename_def)
next
  let ?vs = "[''prcp'', ''tmin'']"
  let ?ws = "[year_window 2000, year_window 2001]"
  have "(1855::int) \<in> {1840, 1855, 1852}" by simp
  then obtain urls where ok:
    "u_coord_urls ''h'' (\<lambda>x. ''0'') 1855 (0, 0) ''na'' ?vs ?ws = Inr urls"
    using u_coord_urls_valid by blast
  have a: "spec_url ''h'' 1855 ''na'' (?vs ! 0) (fst (?ws ! 1)) = Some (fst (urls ! 0 ! 1))"
    using ok filename_convention
         [where code = 1855 and svc = "''h''" and sf = "\<lambda>x. ''0''" and coord = "(0, 0)"
            and region = "''na''" and variables = ?vs and dates = ?ws and urls = urls
            and i = 0 and j = 1]
    by simp
  have b: "spec_url ''h'' 1855 ''na'' (?vs ! 1) (fst (?ws ! 1)) = Some (fst (urls ! 1 ! 1))"
    using ok filename_convention
         [where code = 1855 and svc = "''h''" and sf = "\<lambda>x. ''0''" and coord = "(0, 0)"
            and region = "''na''" and variables = ?vs and dates = ?ws and urls = urls
            and i = 1 and j = 1]
    by simp
  from a b ok show "\<exists>urls. u_coord_urls ''h'' (\<lambda>x. ''0'') 1855 (0, 0) ''na'' ?vs ?ws = Inr urls \<and>
          fst (urls ! 0 ! 1) = ''h/1855/daymet_v4_prcp_monttl_na_2001.nc'' \<and>
          fst (urls ! 1 ! 1) = ''h/1855/daymet_v4_tmin_monavg_na_2001.nc''"
    by (simp add: spec_url_example)
qed

lemma traverse_Inr_set:
  "traverse f xs = Inr ys \<Longrightarrow> y \<in> set ys \<Longrightarrow> \<exists>x \<in> set xs. f x = Inr y"
  by (induction xs arbitrary: ys) (auto split: sum.splits)

lemma gridded_param_names:
  "snd d = [(''params'', gridded_params sf (west, south, east, north) v w)] \<Longrightarrow>
     map fst (snd d) = [''params''] \<and>
     param_names d =
       [''var'', ''north'', ''west'', ''east'', ''south'', ''disableProjSubset'',
        ''horizStride'', ''time_start'', ''time_end'', ''timeStride'', ''addLatLon'',
        ''accept'']"
  by (simp add: param_names_def gridded_params_def)

lemma gridded_param_values:
  "snd d = [(''params'', gridded_params sf (west, south, east, north) v w)] \<Longrightarrow>
     param d ''var'' = Some v \<and>
     param d ''north'' = Some (sf north) \<and>
     param d ''south'' = Some (sf south) \<and>
     param d ''east'' = Some (sf east) \<and>
     param d ''west'' = Some (sf west) \<and>
     param d ''disableProjSubset'' = Some ''on'' \<and>
     param d ''horizStride'' = Some ''1'' \<and>
     param d ''timeStride'' = Some ''1'' \<and>
     param d ''time_start'' = Some (strftime_DATE_REQ (fst w)) \<and>
     param d ''time_end'' = Some (strftime_DATE_REQ (snd w)) \<and>
     param d ''addLatLon'' = Some ''true'' \<and>
     param d ''accept'' = Some ''netcdf''"
  by (simp add: param_def gridded_params_def)

lemma grid_names_set:
  "set [''var'', ''north'', ''west'', ''east'', ''south'', ''disableProjSubset'',
        ''horizStride'', ''time_start'', ''time_end'', ''timeStride'', ''addLatLon'',
        ''accept''] =
   {''var'', ''north'', ''south'', ''east'', ''west'', ''disableProjSubset'',
    ''horizStride'', ''timeStride'', ''time_start'', ''time_end'', ''addLatLon'',
    ''accept''}"
  by (simp add: insert_commute)

lemma grid_names_distinct:
  "distinct [''var'', ''north'', ''west'', ''east'', ''south'', ''disableProjSubset'',
        ''horizStride'', ''time_start'', ''time_end'', ''timeStride'', ''addLatLon'',
        ''accept'']"
  by simp

text \<open>
  Claim C4. \<open>_gridded_urls\<close> returns (for each of the three endpoint codes) one
  descriptor for each element of the cartesian product of variables and windows, in the
  order of the product; every descriptor carries exactly the twelve query parameters
  var, north, south, east, west, disableProjSubset, horizStride, timeStride, time_start,
  time_end, addLatLon and accept, with the fixed values on, 1, 1, true and netcdf and the
  two times printed with \<open>DATE_REQ\<close>.
\<close>

theorem gridded_urls_params:
  "(code \<in> {1840, 1855, 1852} \<longrightarrow>
      (\<exists>ds. u_gridded_urls svc sf code (west, south, east, north) region variables dates
             = Inr ds)) \<and>
   (u_gridded_urls svc sf code (west, south, east, north) region variables dates = Inr ds
    \<longrightarrow>
      length ds = length variables * length dates \<and>
      map (\<lambda>d. (param d ''var'', param d ''time_start'', param d ''time_end'')) ds =
        map (\<lambda>vw. (Some (fst vw), Some (strftime_DATE_REQ (fst (snd vw))),
                   Some (strftime_DATE_REQ (snd (snd vw)))))
          (List.product variables dates) \<and>
      (\<forall>d \<in> set ds.
         map fst (snd d) = [''params''] \<and>
         distinct (param_names d) \<and>
         set (param_names d) =
           {''var'', ''north'', ''south'', ''east'', ''west'', ''disableProjSubset'',
            ''horizStride'', ''timeStride'', ''time_start'', ''time_end'', ''addLatLon'',
            ''accept''} \<and>
         param d ''north'' = Some (sf north) \<and>
         param d ''south'' = Some (sf south) \<and>
         param d ''east'' = Some (sf east) \<and>
         param d ''west'' = Some (sf west) \<and>
         param d ''disableProjSubset'' = Some ''on'' \<and>
         param d ''horizStride'' = Some ''1'' \<and>
         param d ''timeStride'' = Some ''1'' \<and>
         param d ''addLatLon'' = Some ''true'' \<and>
         param d ''accept'' = Some ''netcdf''))"
proof (intro conjI impI)
  assume "code \<in> {1840, 1855, 1852}"
  then show "\<exists>ds. u_gridded_urls svc sf code (west, south, east, north) region variables
               dates = Inr ds"
    by (rule u_gridded_urls_valid)
next
  assume "u_gridded_urls svc sf code (west, south, east, north) region variables dates
            = Inr ds"
  then have tr: "traverse (gridded_descriptor svc sf code (west, south, east, north) region)
                   (List.product variables dates) = Inr ds"
    by (simp add: u_gridded_urls_def)
  from traverse_Inr_length [OF tr]
  show "length ds = length variables * length dates" by simp
  show "map (\<lambda>d. (param d ''var'', param d ''time_start'', param d ''time_end'')) ds =
        map (\<lambda>vw. (Some (fst vw), Some (strftime_DATE_REQ (fst (snd vw))),
                   Some (strftime_DATE_REQ (snd (snd vw)))))
          (List.product variables dates)"
  proof (rule traverse_Inr_map_rel [OF tr])
    fix vw d
    assume "gridded_descriptor svc sf code (west, south, east, north) region vw = Inr d"
    then have "snd d = [(''params'',
                 gridded_params sf (west, south, east, north) (fst vw) (snd vw))]"
      by (simp add: gridded_descriptor_Inr)
    from gridded_param_values [OF this]
    show "(param d ''var'', param d ''time_start'', param d ''time_end'') =
          (Some (fst vw), Some (strftime_DATE_REQ (fst (snd vw))),
           Some (strftime_DATE_REQ (snd (snd vw))))"
      by simp
  qed
  show "\<forall>d \<in> set ds.
         map fst (snd d) = [''params''] \<and>
         distinct (param_names d) \<and>
         set (param_names d) =
           {''var'', ''north'', ''south'', ''east'', ''west'', ''disableProjSubset'',
            ''horizStride'', ''timeStride'', ''time_start'', ''time_end'', ''addLatLon'',
            ''accept''} \<and>
         param d ''north'' = Some (sf north) \<and>
         param d ''south'' = Some (sf south) \<and>
         param d ''east'' = Some (sf east) \<and>
         param d ''west'' = Some (sf west) \<and>
         param d ''disableProjSubset'' = Some ''on'' \<and>
         param d ''horizStride'' = Some ''1'' \<and>
         param d ''timeStride'' = Some ''1'' \<and>
         param d ''addLatLon'' = Some ''true'' \<and>
         param d ''accept'' = Some ''netcdf''"
  proof
    fix d
    assume "d \<in> set ds"
    with traverse_Inr_set [OF tr] obtain vw where
      "gridded_descriptor svc sf code (west, south, east, north) region vw = Inr d"
      by blast
    then have sd: "snd d = [(''params'',
                 gridded_params sf (west, south, east, north) (fst vw) (snd vw))]"
      by (simp add: gridded_descriptor_Inr)
    from gridded_param_names [OF sd] gridded_param_values [OF sd]
    show "map fst (snd d) = [''params''] \<and>
         distinct (param_names d) \<and>
         set (param_names d) =
           {''var'', ''north'', ''south'', ''east'', ''west'', ''disableProjSubset'',
            ''horizStride'', ''timeStride'', ''time_start'', ''time_end'', ''addLatLon'',
            ''accept''} \<and>
         param d ''north'' = Some (sf north) \<and>
         param d ''south'' = Some (sf south) \<and>
         param d ''east'' = Some (sf east) \<and>
         param d ''west'' = Some (sf west) \<and>
         param d ''disableProjSubset'' = Some ''on'' \<and>
         param d ''horizStride'' = Some ''1'' \<and>
         param d ''timeStride'' = Some ''1'' \<and>
         param d ''addLatLon'' = Some ''true'' \<and>
         param d ''accept'' = Some ''netcdf''"
      by (simp only: grid_names_set grid_names_distinct simp_thms)
  qed
qed

theorem gridded_urls_params_witness:
  "\<exists>ds. u_gridded_urls ''h'' (\<lambda>x. ''0'') 1855 (0, 0, 0, 0) ''na'' [''prcp'', ''tmin'']
           [year_window 2001, year_window 2002] = Inr ds \<and>
        length ds = 4 \<and>
        map (\<lambda>d. (param d ''var'', param d ''time_start'')) ds =
          [(Some ''prcp'', Some ''2001-01-01T00:00:00Z''),
           (Some ''prcp'', Some ''2002-01-01T00:00:00Z''),
           (Some ''tmin'', Some ''2001-01-01T00:00:00Z''),
           (Some ''tmin'', Some ''2002-01-01T00:00:00Z'')] \<and>
        (\<forall>d \<in> set ds. param d ''accept'' = Some ''netcdf'' \<and> length (param_names d) = 12)"
proof -
  let ?vs = "[''prcp'', ''tmin'']"
  let ?ws = "[year_window 2001, year_window 2002]"
  note inst = gridded_urls_params
         [where code = 1855 and svc = "''h''" and sf = "\<lambda>x. ''0''" and west = 0
            and south = 0 and east = 0 and north = 0
            and region = "''na''" and variables = ?vs and dates = ?ws]
  have "(1855::int) \<in> {1840, 1855, 1852}" by simp
  with inst obtain ds where ok:
    "u_gridded_urls ''h'' (\<lambda>x. ''0'') 1855 (0, 0, 0, 0) ''na'' ?vs ?ws = Inr ds"
    by blast
  note concl = inst [where ds = ds, THEN conjunct2, THEN mp, OF ok]
  note len = concl [THEN conjunct1]
  note order = concl [THEN conjunct2, THEN conjunct1]
  note each = concl [THEN conjunct2, THEN conjunct2]
  have "map (\<lambda>d. (param d ''var'', param d ''time_start'')) ds =
        map (\<lambda>t. (fst t, fst (snd t)))
          (map (\<lambda>d. (param d ''var'', param d ''time_start'', param d ''time_end'')) ds)"
    by simp
  also have "\<dots> = [(Some ''prcp'', Some ''2001-01-01T00:00:00Z''),
           (Some ''prcp'', Some ''2002-01-01T00:00:00Z''),
           (Some ''tmin'', Some ''2001-01-01T00:00:00Z''),
           (Some ''tmin'', Some ''2002-01-01T00:00:00Z'')]"
    unfolding order
    by (simp add: strftime_DATE_REQ_def year_window_def pad2_def str_nat.simps
        digit_char_def)
  finally have o: "map (\<lambda>d. (param d ''var'', param d ''time_start'')) ds =
          [(Some ''prcp'', Some ''2001-01-01T00:00:00Z''),
           (Some ''prcp'', Some ''2002-01-01T00:00:00Z''),
           (Some ''tmin'', Some ''2001-01-01T00:00:00Z''),
           (Some ''tmin'', Some ''2002-01-01T00:00:00Z'')]" .
  have c: "\<forall>d \<in> set ds. param d ''accept'' = Some ''netcdf'' \<and> length (param_names d) = 12"
  proof
    fix d assume "d \<in> set ds"
    with each have f: "map fst (snd d) = [''params''] \<and>
         distinct (param_names d) \<and>
         set (param_names d) =
           {''var'', ''north'', ''south'', ''east'', ''west'', ''disableProjSubset'',
            ''horizStride'', ''timeStride'', ''time_start'', ''time_end'', ''addLatLon'',
            ''accept''} \<and>
         param d ''north'' = Some ''0'' \<and>
         param d ''south'' = Some ''0'' \<and>
         param d ''east'' = Some ''0'' \<and>
         param d ''west'' = Some ''0'' \<and>
         param d ''disableProjSubset'' = Some ''on'' \<and>
         param d ''horizStride'' = Some ''1'' \<and>
         param d ''timeStride'' = Some ''1'' \<and>
         param d ''addLatLon'' = Some ''true'' \<and>
         param d ''accept'' = Some ''netcdf''"
      by (rule bspec)
    note d = f [THEN conjunct2, THEN conjunct1]
    note s = f [THEN conjunct2, THEN conjunct2, THEN conjunct1]
    from f have a: "param d ''accept'' = Some ''netcdf''"
      by (elim conjE)
    from d have "length (param_names d) = card (set (param_names d))"
      by (simp add: distinct_card)
    also have "\<dots> = 12" unfolding s by simp
    finally show "param d ''accept'' = Some ''netcdf'' \<and> length (param_names d) = 12"
      using a by simp
  qed
  from len have l4: "length ds = 4" by simp
  show ?thesis by (rule exI [of _ ds]) (intro conjI ok l4 o c)
qed

section \<open>Point mode: properties\<close>

lemma str_replace_Nil: "old \<noteq> [] \<Longrightarrow> str_replace old new [] = []"
  by (simp add: str_replace.simps)

lemma str_replace_skip:
  "old \<noteq> [] \<Longrightarrow> hd old \<noteq> c \<Longrightarrow> str_replace old new (c # s) = c # str_replace old new s"
  by (subst str_replace.simps) (cases old; auto)

lemma str_replace_match:
  "old \<noteq> [] \<Longrightarrow> str_replace old new (old @ s) = new @ str_replace old new s"
  by (subst str_replace.simps) simp

lemma str_replace_clean_prefix:
  "old \<noteq> [] \<Longrightarrow> hd old \<notin> set a \<Longrightarrow>
     str_replace old new (a @ s) = a @ str_replace old new s"
  by (induction a) (simp_all add: str_replace_skip)

lemma str_replace_clean:
  "old \<noteq> [] \<Longrightarrow> hd old \<notin> set a \<Longrightarrow> str_replace old new a = a"
  using str_replace_clean_prefix [of old a new "[]"] by (simp add: str_replace_Nil)

lemma relabel_unit:
  assumes "clean name" and "clean u"
  shows \<open>relabel (name @ ''[unit="'' @ u @ ''"]'') = name @ '' ('' @ u @ '')''\<close>
proof -
  have 1: \<open>str_replace ''[unit="'' '' ('' (name @ ''[unit="'' @ u @ ''"]'')
             = name @ '' ('' @ u @ ''"]''\<close>
  proof -
    have \<open>str_replace ''[unit="'' '' ('' (name @ ''[unit="'' @ u @ ''"]'')
            = name @ str_replace ''[unit="'' '' ('' (''[unit="'' @ (u @ ''"]''))\<close>
      using assms by (intro str_replace_clean_prefix) (simp_all add: clean_def)
    also have \<open>str_replace ''[unit="'' '' ('' (''[unit="'' @ (u @ ''"]''))
            = '' ('' @ str_replace ''[unit="'' '' ('' (u @ ''"]'')\<close>
      by (intro str_replace_match) simp
    also have \<open>str_replace ''[unit="'' '' ('' (u @ ''"]'') = u @ ''"]''\<close>
      using assms by (intro str_replace_clean) (simp_all add: clean_def)
    finally show ?thesis by simp
  qed
  have \<open>str_replace ''"]'' '')'' ((name @ '' ('' @ u) @ ''"]'' @ [])
          = (name @ '' ('' @ u) @ str_replace ''"]'' '')'' (''"]'' @ [])\<close>
    using assms by (intro str_replace_clean_prefix) (simp_all add: clean_def)
  also have \<open>str_replace ''"]'' '')'' (''"]'' @ []) = '')'' @ str_replace ''"]'' '')'' []\<close>
    by (intro str_replace_match) simp
  finally have 2: \<open>str_replace ''"]'' '')'' (name @ '' ('' @ u @ ''"]'')
          = name @ '' ('' @ u @ '')''\<close>
    by (simp add: str_replace_Nil)
  show ?thesis unfolding relabel_def 1 2 ..
qed


lemma rename_prcp_length: "length (rename_prcp cs) = length cs"
  by (simp add: rename_prcp_def)

lemma rename_prcp_nth:
  assumes "k < length cs"
  shows "rename_prcp cs ! k = (if cs ! k = ''prcp (mm)'' then ''prcp (mm/day)'' else cs ! k)"
proof (cases "''prcp (mm)'' \<in> set cs")
  case True
  with assms show ?thesis by (simp add: rename_prcp_def)
next
  case False
  from assms have "cs ! k \<in> set cs" by (rule nth_mem)
  with False have "cs ! k \<noteq> ''prcp (mm)''" by metis
  with False show ?thesis by (simp add: rename_prcp_def)
qed

lemma rename_prcp_gone: "''prcp (mm)'' \<notin> set (rename_prcp cs)"
  by (auto simp add: rename_prcp_def)

lemma bind_err_Inr:
  "bind_err m k = Inr y \<Longrightarrow> \<exists>x. m = Inr x \<and> k x = Inr y"
  by (cases m) (simp_all add: bind_err_def)

lemma assemble_Inr:
  assumes "assemble E plan = Inr clm"
  shows "\<exists>fs raw. traverse (fetch_variable E) (map unzip_desc plan) = Inr fs \<and>
           concat_cols E fs = Inr raw \<and>
           clm = raw\<lparr>columns := rename_prcp (map relabel (columns raw)),
                     index := map to_date (index raw)\<rparr>"
proof -
  from assms obtain fs where fs: "traverse (fetch_variable E) (map unzip_desc plan) = Inr fs"
    and r: "bind_err (concat_cols E fs) (\<lambda>clm.
     Inr (clm\<lparr>columns := rename_prcp (map relabel (columns clm)),
              index := map to_date (index clm)\<rparr>)) = Inr clm"
    unfolding assemble_def by (blast dest: bind_err_Inr)
  from r obtain raw where "concat_cols E fs = Inr raw"
    and "Inr (raw\<lparr>columns := rename_prcp (map relabel (columns raw)),
              index := map to_date (index raw)\<rparr>) = (Inr clm :: error + frame)"
    by (blast dest: bind_err_Inr)
  with fs show ?thesis by auto
qed

text \<open>
  Claim C6. In \<open>get_bycoords\<close> a raw column label \<^verbatim>\<open>name[unit="u"]\<close> (name and unit
  without bracket or quote) is rewritten to \<^verbatim>\<open>name (u)\<close>; every column of the
  assembled frame is the rewritten raw label, except that the label \<^verbatim>\<open>prcp (mm)\<close>
  is replaced by \<^verbatim>\<open>prcp (mm/day)\<close>, so no column of the result is labelled
  \<^verbatim>\<open>prcp (mm)\<close>.
\<close>

theorem column_labels_normalized:
  \<open>(clean name \<and> clean u \<longrightarrow>
      relabel (name @ ''[unit="'' @ u @ ''"]'') = name @ '' ('' @ u @ '')'') \<and>
   (assemble E plan = Inr clm \<longrightarrow>
      (\<exists>fs raw. traverse (fetch_variable E) (map unzip_desc plan) = Inr fs \<and>
         concat_cols E fs = Inr raw \<and>
         length (columns clm) = length (columns raw) \<and>
         ''prcp (mm)'' \<notin> set (columns clm) \<and>
         (\<forall>k < length (columns raw).
            columns clm ! k =
              (if relabel (columns raw ! k) = ''prcp (mm)'' then ''prcp (mm/day)''
               else relabel (columns raw ! k))))) \<and>
   (get_bycoords E xy dates crs variables region time_scale None pet_params = Inr clm \<longrightarrow>
      (\<exists>c url_kwds. coords_plan E xy dates crs variables region time_scale None
                       = Inr (c, url_kwds) \<and>
                     assemble E url_kwds = Inr clm))\<close>
proof (intro conjI impI)
  assume "clean name \<and> clean u"
  then show \<open>relabel (name @ ''[unit="'' @ u @ ''"]'') = name @ '' ('' @ u @ '')''\<close>
    by (elim conjE) (rule relabel_unit)
next
  assume "assemble E plan = Inr clm"
  from assemble_Inr [OF this] obtain fs raw where
    fs: "traverse (fetch_variable E) (map unzip_desc plan) = Inr fs"
    and raw: "concat_cols E fs = Inr raw"
    and clm: "clm = raw\<lparr>columns := rename_prcp (map relabel (columns raw)),
                     index := map to_date (index raw)\<rparr>"
    by blast
  from clm have cols: "columns clm = rename_prcp (map relabel (columns raw))" by simp
  have "length (columns clm) = length (columns raw)"
    by (simp add: cols rename_prcp_length)
  moreover have "''prcp (mm)'' \<notin> set (columns clm)"
    by (simp add: cols rename_prcp_gone)
  moreover have "\<forall>k < length (columns raw).
            columns clm ! k =
              (if relabel (columns raw ! k) = ''prcp (mm)'' then ''prcp (mm/day)''
               else relabel (columns raw ! k))"
    by (simp add: cols rename_prcp_nth)
  ultimately show "\<exists>fs raw. traverse (fetch_variable E) (map unzip_desc plan) = Inr fs \<and>
         concat_cols E fs = Inr raw \<and>
         length (columns clm) = length (columns raw) \<and>
         ''prcp (mm)'' \<notin> set (columns clm) \<and>
         (\<forall>k < length (columns raw).
            columns clm ! k =
              (if relabel (columns raw ! k) = ''prcp (mm)'' then ''prcp (mm/day)''
               else relabel (columns raw ! k)))"
    using fs raw by blast
next
  assume "get_bycoords E xy dates crs variables region time_scale None pet_params = Inr clm"
  then obtain p where p: "coords_plan E xy dates crs variables region time_scale None = Inr p"
    and r: "(case p of (c, url_kwds) \<Rightarrow>
              bind_err (assemble E url_kwds) (\<lambda>clm. Inr clm)) = Inr clm"
    unfolding get_bycoords_def by (auto dest: bind_err_Inr)
  obtain c url_kwds where pc: "p = (c, url_kwds)" by (cases p)
  with r have "assemble E url_kwds = Inr clm"
    by (auto dest: bind_err_Inr)
  with p pc show "\<exists>c url_kwds. coords_plan E xy dates crs variables region time_scale None
                       = Inr (c, url_kwds) \<and> assemble E url_kwds = Inr clm"
    by blast
qed

lemma example_env_point:
  "retrieve example_env = (\<lambda>u k. Inr u)"
  "read_csv example_env = (\<lambda>payload. Inr (example_frame payload))"
  "concat_rows example_env =
     (\<lambda>fs. case fs of [] \<Rightarrow> Inl ValueError
           | f # _ \<Rightarrow> Inr (f\<lparr>index := concat (map index fs),
                              cells := concat (map cells fs)\<rparr>))"
  "concat_cols example_env =
     (\<lambda>fs. case fs of [] \<Rightarrow> Inl ValueError
           | f # _ \<Rightarrow> Inr (f\<lparr>columns := concat (map columns fs)\<rparr>))"
  by (simp_all add: example_env_def)

lemma relabel_examples:
  \<open>relabel ''prcp[unit="mm"]'' = ''prcp (mm)''\<close>
  \<open>relabel ''tmin[unit="degrees C"]'' = ''tmin (degrees C)''\<close>
  by code_simp+

lemma example_frame_prcp:
  \<open>example_frame ''h/1840/daymet_v4_daily_na_prcp_2000.nc'' =
     \<lparr>index = [\<lparr>year = 2000, month = 1, day = 1, hour = 12, minute = 0, second = 0\<rparr>],
      columns = [''prcp[unit="mm"]''],
      cells = [[Some 1]]\<rparr>\<close>
  by (simp add: example_frame_def)

lemma example_fetch:
  \<open>fetch_variable example_env (unzip_desc [(''h/1840/daymet_v4_daily_na_prcp_2000.nc'', k)]) =
     Inr \<lparr>index = [\<lparr>year = 2000, month = 1, day = 1, hour = 12, minute = 0, second = 0\<rparr>],
      columns = [''prcp[unit="mm"]''],
      cells = [[Some 1]]\<rparr>\<close>
  by (simp add: fetch_variable_def unzip_desc_def bind_err_def example_env_point
      example_frame_prcp)

lemma example_assemble:
  "assemble example_env [[(''h/1840/daymet_v4_daily_na_prcp_2000.nc'', k)]] =
     Inr \<lparr>index = [\<lparr>year = 2000, month = 1, day = 1, hour = 0, minute = 0, second = 0\<rparr>],
          columns = [''prcp (mm/day)''],
          cells = [[Some 1]]\<rparr>"
  by (simp add: assemble_def bind_err_def example_fetch example_env_point
      relabel_examples rename_prcp_def to_date_def)


lemma example_env_plan:
  "Daymet example_env = (\<lambda>variables pet time_scale region. Inr (example_daymet variables region))"
  "check_dates example_env = (\<lambda>dm dates. Inr ())"
  "dates_tolist example_env = (\<lambda>dm dates. Inr [year_window 2000])"
  "years_tolist example_env = (\<lambda>dm dates. Inr [year_window 2000, year_window 2001])"
  "match_crs example_env = (\<lambda>cs crs_in crs_out. Inr cs)"
  "restful_daymet example_env = ''h''"
  "py_str_float example_env = (\<lambda>x. ''0'')"
  by (simp_all add: example_env_def)

lemma example_region_check:
  "getitem (dm_region_bbox (example_daymet vs ''na'')) ''na'' = Inr na_box"
  "in_interior na_box (- 100, 40)"
  by (simp_all add: getitem_def example_daymet_def region_bbox_boxes na_box_def
      sgeom_box_def float64_def in_interior_def)

lemma example_descriptor:
  "coord_descriptor ''h'' (\<lambda>x. ''0'') 1840 (- 100, 40) ''na'' ''prcp'' (year_window 2000) =
     Inr (''h/1840/daymet_v4_daily_na_prcp_2000.nc'',
          [(''params'',
            [(''var'', ''prcp''), (''longitude'', ''0''), (''latitude'', ''0''),
             (''time_start'', ''2000-01-01T00:00:00Z''),
             (''time_end'', ''2000-12-31T00:00:00Z''), (''accept'', ''csv'')])])"
  by (simp add: coord_descriptor_def bind_err_def request_url_def u_get_filename_def
      coord_params_def strftime_DATE_REQ_def year_window_def pad2_def str_int_def
      str_nat.simps digit_char_def)

lemma example_coords_plan:
  "coords_plan example_env [- 100, 40] (DatesTuple ''2000-01-01'' ''2000-12-31'') DEF_CRS
     (Some [''prcp'']) ''na'' ''daily'' None =
   Inr ((- 100, 40),
        [[(''h/1840/daymet_v4_daily_na_prcp_2000.nc'',
          [(''params'',
            [(''var'', ''prcp''), (''longitude'', ''0''), (''latitude'', ''0''),
             (''time_start'', ''2000-01-01T00:00:00Z''),
             (''time_end'', ''2000-12-31T00:00:00Z''), (''accept'', ''csv'')])])]])"
proof -
  have dm: "dm_time_codes (example_daymet (Some [''prcp'']) ''na'') =
              [(''daily'', 1840), (''monthly'', 1855), (''annual'', 1852)]"
    "dm_region (example_daymet (Some [''prcp'']) ''na'') = ''na''"
    "dm_variables (example_daymet (Some [''prcp'']) ''na'') = [''prcp'']"
    by (simp_all add: example_daymet_def)
  have code: "getitem [(''daily'', 1840), (''monthly'', 1855), (''annual'', 1852)] ''daily''
                = Inr (1840::int)"
    by (simp add: getitem_def)
  show ?thesis
    by (simp add: coords_plan_def bind_err_def dates_itr_def example_env_plan
        example_region_check dm code u_coord_urls_def example_descriptor)
qed


lemma example_get_bycoords:
  "get_bycoords example_env [- 100, 40] (DatesTuple ''2000-01-01'' ''2000-12-31'') DEF_CRS
     (Some [''prcp'']) ''na'' ''daily'' None None =
   Inr \<lparr>index = [\<lparr>year = 2000, month = 1, day = 1, hour = 0, minute = 0, second = 0\<rparr>],
        columns = [''prcp (mm/day)''],
        cells = [[Some 1]]\<rparr>"
  by (simp add: get_bycoords_def example_coords_plan bind_err_def example_assemble)

theorem column_labels_normalized_witness:
  \<open>clean ''prcp'' \<and> clean ''mm'' \<and>
   relabel (''prcp'' @ ''[unit="'' @ ''mm'' @ ''"]'') = ''prcp'' @ '' ('' @ ''mm'' @ '')'' \<and>
   get_bycoords example_env [- 100, 40] (DatesTuple ''2000-01-01'' ''2000-12-31'') DEF_CRS
     (Some [''prcp'']) ''na'' ''daily'' None None =
     Inr \<lparr>index = [\<lparr>year = 2000, month = 1, day = 1, hour = 0, minute = 0, second = 0\<rparr>],
          columns = [''prcp (mm/day)''], cells = [[Some 1]]\<rparr> \<and>
   (\<exists>c url_kwds.
      coords_plan example_env [- 100, 40] (DatesTuple ''2000-01-01'' ''2000-12-31'') DEF_CRS
        (Some [''prcp'']) ''na'' ''daily'' None = Inr (c, url_kwds) \<and>
      assemble example_env url_kwds =
        Inr \<lparr>index = [\<lparr>year = 2000, month = 1, day = 1, hour = 0, minute = 0, second = 0\<rparr>],
             columns = [''prcp (mm/day)''], cells = [[Some 1]]\<rparr>) \<and>
   (\<exists>fs raw.
      traverse (fetch_variable example_env)
        (map unzip_desc [[(''h/1840/daymet_v4_daily_na_prcp_2000.nc'', [])]]) = Inr fs \<and>
      concat_cols example_env fs = Inr raw \<and>
      length [''prcp (mm/day)''] = length (columns raw) \<and>
      ''prcp (mm)'' \<notin> set [''prcp (mm/day)''] \<and>
      (\<forall>k < length (columns raw).
         [''prcp (mm/day)''] ! k =
           (if relabel (columns raw ! k) = ''prcp (mm)'' then ''prcp (mm/day)''
            else relabel (columns raw ! k))))\<close>
proof -
  let ?clm = "\<lparr>index = [\<lparr>year = 2000, month = 1, day = 1, hour = 0, minute = 0, second = 0\<rparr>],
        columns = [''prcp (mm/day)''], cells = [[Some (1::real)]]\<rparr>"
  have c: "clean ''prcp'' \<and> clean ''mm''" by (simp add: clean_def)
  note t1 = column_labels_normalized
      [where name = "''prcp''" and u = "''mm''", THEN conjunct1, THEN mp, OF c]
  note t2 = column_labels_normalized
      [where E = example_env and clm = ?clm
         and plan = "[[(''h/1840/daymet_v4_daily_na_prcp_2000.nc'', [])]]",
       THEN conjunct2, THEN conjunct1, THEN mp, OF example_assemble]
  note t3 = column_labels_normalized
      [where E = example_env and clm = ?clm, THEN conjunct2, THEN conjunct2, THEN mp,
       OF example_get_bycoords]
  from t2 have t2': "\<exists>fs raw.
      traverse (fetch_variable example_env)
        (map unzip_desc [[(''h/1840/daymet_v4_daily_na_prcp_2000.nc'', [])]]) = Inr fs \<and>
      concat_cols example_env fs = Inr raw \<and>
      length [''prcp (mm/day)''] = length (columns raw) \<and>
      ''prcp (mm)'' \<notin> set [''prcp (mm/day)''] \<and>
      (\<forall>k < length (columns raw).
         [''prcp (mm/day)''] ! k =
           (if relabel (columns raw ! k) = ''prcp (mm)'' then ''prcp (mm/day)''
            else relabel (columns raw ! k)))"
    by (simp only: frame.simps)
  show ?thesis
    by (intro conjI c [THEN conjunct1] c [THEN conjunct2] t1 example_get_bycoords t3 t2')
qed

lemma fill_buffer_Inr:
  "fill_buffer f done buf = Inr buf' \<Longrightarrow>
     length buf' = length buf \<and>
     (\<forall>i \<in> set done. \<exists>p. f i = Inr p) \<and>
     (\<forall>j < length buf. buf' ! j = (if j \<in> set done then Some (projr (f j)) else buf ! j))"
proof (induction "done" arbitrary: buf)
  case Nil
  then show ?case by simp
next
  case (Cons i rest)
  from Cons.prems obtain p where p: "f i = Inr p"
    and r: "fill_buffer f rest (buf[i := Some p]) = Inr buf'"
    by (auto split: sum.splits)
  from Cons.IH [OF r] have len: "length buf' = length buf"
    and ok: "\<forall>i \<in> set rest. \<exists>p. f i = Inr p"
    and at: "\<forall>j < length buf. buf' ! j =
               (if j \<in> set rest then Some (projr (f j)) else buf[i := Some p] ! j)"
    by simp_all
  have "\<forall>j < length buf. buf' ! j =
          (if j \<in> set (i # rest) then Some (projr (f j)) else buf ! j)"
  proof (intro allI impI)
    fix j assume j: "j < length buf"
    show "buf' ! j = (if j \<in> set (i # rest) then Some (projr (f j)) else buf ! j)"
    proof (cases "j = i")
      case True
      with at j p show ?thesis by simp
    next
      case False
      with at j show ?thesis by simp
    qed
  qed
  with len ok p show ?case by simp
qed

lemma fill_buffer_total:
  "(\<forall>i \<in> set done. \<exists>p. f i = Inr p) \<Longrightarrow> \<exists>buf'. fill_buffer f done buf = Inr buf'"
proof (induction "done" arbitrary: buf)
  case Nil
  then show ?case by simp
next
  case (Cons i rest)
  then obtain p where "f i = Inr p" by auto
  moreover from Cons obtain buf' where "fill_buffer f rest (buf[i := Some p]) = Inr buf'"
    by fastforce
  ultimately show ?case by simp
qed

lemma those_Some: "those xs = Some ys \<Longrightarrow> xs = map Some ys"
  by (induction xs arbitrary: ys) (auto split: option.splits)

lemma those_map_Some: "those (map Some ys) = Some ys"
  by (induction ys) simp_all

lemma buffer_retrieve_Inr:
  assumes "buffer_retrieve sched answer u k = Inr ps"
  shows "(\<forall>i < length (zip u k). \<exists>p. answer (fst (zip u k ! i)) (snd (zip u k ! i)) = Inr p) \<and>
         ps = map (\<lambda>r. projr (answer (fst r) (snd r))) (zip u k)"
proof -
  let ?reqs = "zip u k"
  let ?f = "\<lambda>i. answer (fst (?reqs ! i)) (snd (?reqs ! i))"
  let ?done = "filter (\<lambda>i. i < length ?reqs) (sched u)"
  from assms obtain buf where
    fill: "fill_buffer ?f ?done (replicate (length ?reqs) None) = Inr buf"
    and th: "those buf = Some ps"
    by (auto simp add: buffer_retrieve_def Let_def bind_err_def split: sum.splits option.splits)
  from fill_buffer_Inr [OF fill] have len: "length buf = length ?reqs"
    and ok: "\<forall>i \<in> set ?done. \<exists>p. ?f i = Inr p"
    and at: "\<forall>j < length ?reqs. buf ! j =
               (if j \<in> set ?done then Some (projr (?f j)) else None)"
    by simp_all
  from those_Some [OF th] have buf: "buf = map Some ps" .
  with len have lps: "length ps = length ?reqs" by simp
  have each: "j \<in> set ?done \<and> ps ! j = projr (?f j)" if "j < length ?reqs" for j
  proof -
    from that lps buf have "buf ! j = Some (ps ! j)" by simp
    with at that show ?thesis by (auto split: if_splits)
  qed
  have "\<forall>i < length ?reqs. \<exists>p. ?f i = Inr p"
    using each ok by blast
  moreover have "ps = map (\<lambda>r. projr (answer (fst r) (snd r))) ?reqs"
    using each lps by (intro nth_equalityI) simp_all
  ultimately show ?thesis by simp
qed

lemma buffer_retrieve_total:
  assumes cov: "covers sched u"
    and ok: "\<forall>i < length (zip u k). \<exists>p. answer (fst (zip u k ! i)) (snd (zip u k ! i)) = Inr p"
  shows "buffer_retrieve sched answer u k =
           Inr (map (\<lambda>r. projr (answer (fst r) (snd r))) (zip u k))"
proof -
  let ?reqs = "zip u k"
  let ?f = "\<lambda>i. answer (fst (?reqs ! i)) (snd (?reqs ! i))"
  let ?done = "filter (\<lambda>i. i < length ?reqs) (sched u)"
  let ?ps = "map (\<lambda>r. projr (answer (fst r) (snd r))) ?reqs"
  from ok have "\<forall>i \<in> set ?done. \<exists>p. ?f i = Inr p" by simp
  from fill_buffer_total [OF this] obtain buf where
    fill: "fill_buffer ?f ?done (replicate (length ?reqs) None) = Inr buf"
    by blast
  from fill_buffer_Inr [OF fill] have len: "length buf = length ?reqs"
    and at: "\<forall>j < length ?reqs. buf ! j =
               (if j \<in> set ?done then Some (projr (?f j)) else None)"
    by simp_all
  have mem: "j \<in> set ?done" if "j < length ?reqs" for j
  proof -
    from that have "j < length u" by simp
    with cov have "j \<in> set (sched u)"
      by (simp add: covers_def list_all_iff)
    with that show ?thesis by simp
  qed
  have "buf = map Some ?ps"
    using len at mem by (intro nth_equalityI) simp_all
  then have "those buf = Some ?ps" by (simp only: those_map_Some)
  with fill show ?thesis
    by (simp add: buffer_retrieve_def Let_def bind_err_def)
qed

lemma buffer_retrieve_any_order:
  "covers s2 u \<Longrightarrow> buffer_retrieve s1 answer u k = Inr ps \<Longrightarrow>
     buffer_retrieve s2 answer u k = Inr ps"
  using buffer_retrieve_Inr [of s1 answer u k ps] buffer_retrieve_total [of s2 u k answer]
  by simp

lemma buffer_retrieve_sequential:
  assumes "buffer_retrieve s answer u k = Inr ps"
  shows "sequential_retrieve answer u k = Inr ps"
proof -
  from buffer_retrieve_Inr [OF assms]
  have ok: "\<forall>i < length (zip u k). \<exists>p. answer (fst (zip u k ! i)) (snd (zip u k ! i)) = Inr p"
    and ps: "ps = map (\<lambda>r. projr (answer (fst r) (snd r))) (zip u k)"
    by simp_all
  have "answer (fst r) (snd r) = Inr (projr (answer (fst r) (snd r)))" if "r \<in> set (zip u k)" for r
  proof -
    from that obtain i where "i < length (zip u k)" "zip u k ! i = r"
      by (auto simp add: in_set_conv_nth)
    with ok obtain p where "answer (fst r) (snd r) = Inr p" by auto
    then show ?thesis by simp
  qed
  then show ?thesis
    unfolding sequential_retrieve_def ps by (rule traverse_total)
qed


lemma traverse_transfer:
  "(\<And>x y. f x = Inr y \<Longrightarrow> g x = Inr y) \<Longrightarrow> traverse f xs = Inr ys \<Longrightarrow>
     traverse g xs = Inr ys"
  by (induction xs arbitrary: ys) (auto split: sum.splits)

lemma fetch_variable_transfer:
  assumes r: "\<And>u k ps. r1 u k = Inr ps \<Longrightarrow> r2 u k = Inr ps"
    and f: "fetch_variable (E\<lparr>retrieve := r1\<rparr>) uk = Inr fr"
  shows "fetch_variable (E\<lparr>retrieve := r2\<rparr>) uk = Inr fr"
proof (cases uk)
  case None
  with f show ?thesis by (simp add: fetch_variable_def)
next
  case (Some p)
  obtain u k where p: "p = (u, k)" by (cases p)
  from f Some p have "bind_err (r1 u k) (\<lambda>rs.
          bind_err (traverse (read_csv E) rs) (concat_rows E)) = Inr fr"
    by (simp add: fetch_variable_def)
  from bind_err_Inr [OF this] obtain rs where rs: "r1 u k = Inr rs"
    and rest: "bind_err (traverse (read_csv E) rs) (concat_rows E) = Inr fr"
    by auto
  from r [OF rs] rest Some p show ?thesis
    by (simp add: fetch_variable_def bind_err_def)
qed

lemma assemble_transfer:
  assumes r: "\<And>u k ps. r1 u k = Inr ps \<Longrightarrow> r2 u k = Inr ps"
    and a: "assemble (E\<lparr>retrieve := r1\<rparr>) plan = Inr clm"
  shows "assemble (E\<lparr>retrieve := r2\<rparr>) plan = Inr clm"
proof -
  from assemble_Inr [OF a] obtain fs raw where
    fs: "traverse (fetch_variable (E\<lparr>retrieve := r1\<rparr>)) (map unzip_desc plan) = Inr fs"
    and raw: "concat_cols E fs = Inr raw"
    and clm: "clm = raw\<lparr>columns := rename_prcp (map relabel (columns raw)),
                     index := map to_date (index raw)\<rparr>"
    by auto
  have "traverse (fetch_variable (E\<lparr>retrieve := r2\<rparr>)) (map unzip_desc plan) = Inr fs"
    using fs by (rule traverse_transfer [rotated]) (rule fetch_variable_transfer [OF r])
  with raw clm show ?thesis
    by (simp add: assemble_def bind_err_def)
qed

lemma env_retrieve_other:
  "Daymet (E\<lparr>retrieve := r\<rparr>) = Daymet E"
  "check_dates (E\<lparr>retrieve := r\<rparr>) = check_dates E"
  "dates_tolist (E\<lparr>retrieve := r\<rparr>) = dates_tolist E"
  "years_tolist (E\<lparr>retrieve := r\<rparr>) = years_tolist E"
  "match_crs (E\<lparr>retrieve := r\<rparr>) = match_crs E"
  "restful_daymet (E\<lparr>retrieve := r\<rparr>) = restful_daymet E"
  "py_str_float (E\<lparr>retrieve := r\<rparr>) = py_str_float E"
  "potential_et_df (E\<lparr>retrieve := r\<rparr>) = potential_et_df E"
  by simp_all

lemma coords_plan_retrieve:
  "coords_plan (E\<lparr>retrieve := r\<rparr>) xy dates crs variables region time_scale pet =
   coords_plan E xy dates crs variables region time_scale pet"
  unfolding coords_plan_def dates_itr_def env_retrieve_other ..

lemma get_bycoords_retrieve:
  "get_bycoords (E\<lparr>retrieve := r\<rparr>) xy dates crs variables region time_scale pet pet_params =
     bind_err (coords_plan E xy dates crs variables region time_scale pet)
       (\<lambda>(c, url_kwds).
     bind_err (assemble (E\<lparr>retrieve := r\<rparr>) url_kwds) (\<lambda>clm.
     case pet of
       None \<Rightarrow> Inr clm
     | Some method \<Rightarrow> potential_et_df E clm c method pet_params))"
  unfolding get_bycoords_def coords_plan_retrieve env_retrieve_other ..

lemma get_bycoords_transfer:
  assumes r: "\<And>u k ps. r1 u k = Inr ps \<Longrightarrow> r2 u k = Inr ps"
    and g: "get_bycoords (E\<lparr>retrieve := r1\<rparr>) xy dates crs variables region time_scale
              pet pet_params = Inr clm"
  shows "get_bycoords (E\<lparr>retrieve := r2\<rparr>) xy dates crs variables region time_scale
              pet pet_params = Inr clm"
proof -
  from bind_err_Inr [OF g [unfolded get_bycoords_retrieve]]
  obtain p where p: "coords_plan E xy dates crs variables region time_scale pet = Inr p"
    and rest: "(case p of (c, url_kwds) \<Rightarrow>
        bind_err (assemble (E\<lparr>retrieve := r1\<rparr>) url_kwds) (\<lambda>clm.
        case pet of None \<Rightarrow> Inr clm
        | Some method \<Rightarrow> potential_et_df E clm c method pet_params)) = Inr clm"
    by auto
  obtain c url_kwds where pc: "p = (c, url_kwds)" by (cases p)
  from rest pc have "bind_err (assemble (E\<lparr>retrieve := r1\<rparr>) url_kwds) (\<lambda>clm.
        case pet of None \<Rightarrow> Inr clm
        | Some method \<Rightarrow> potential_et_df E clm c method pet_params) = Inr clm"
    by simp
  from bind_err_Inr [OF this] obtain fr where
    a: "assemble (E\<lparr>retrieve := r1\<rparr>) url_kwds = Inr fr"
    and k: "(case pet of None \<Rightarrow> Inr fr
             | Some method \<Rightarrow> potential_et_df E fr c method pet_params) = Inr clm"
    by auto
  from assemble_transfer [OF r a] have "assemble (E\<lparr>retrieve := r2\<rparr>) url_kwds = Inr fr" .
  with p pc k show ?thesis
    unfolding get_bycoords_retrieve by (simp add: bind_err_def)
qed

lemma list_choice:
  "(\<forall>i<n. \<exists>x. P i x) \<Longrightarrow> \<exists>xs. length xs = n \<and> (\<forall>i<n. P i (xs ! i))"
proof (induction n)
  case 0
  then show ?case by simp
next
  case (Suc n)
  then obtain xs where xs: "length xs = n" "\<forall>i<n. P i (xs ! i)" by auto
  from Suc.prems obtain x where x: "P n x" by auto
  have "length (xs @ [x]) = Suc n" using xs by simp
  moreover have "\<forall>i<Suc n. P i ((xs @ [x]) ! i)"
    using xs x by (auto simp add: nth_append less_Suc_eq)
  ultimately show ?case by blast
qed

lemma fetch_variable_buffer_Inr:
  assumes "fetch_variable (E\<lparr>retrieve := buffer_retrieve s answer\<rparr>) (unzip_desc u) = Inr col"
  shows "u \<noteq> [] \<and>
         (\<exists>fs. length fs = length u \<and>
           (\<forall>j<length u. \<exists>p. answer (fst (u ! j)) (snd (u ! j)) = Inr p \<and>
                               read_csv E p = Inr (fs ! j)) \<and>
           concat_rows E fs = Inr col)"
proof -
  from assms have ne: "u \<noteq> []"
    by (auto simp add: fetch_variable_def unzip_desc_def split: if_splits)
  with assms have "bind_err (buffer_retrieve s answer (map fst u) (map snd u)) (\<lambda>rs.
          bind_err (traverse (read_csv E) rs) (concat_rows E)) = Inr col"
    by (simp add: fetch_variable_def unzip_desc_def)
  from bind_err_Inr [OF this] obtain ps where
    ps: "buffer_retrieve s answer (map fst u) (map snd u) = Inr ps"
    and r: "bind_err (traverse (read_csv E) ps) (concat_rows E) = Inr col"
    by auto
  from bind_err_Inr [OF r] obtain fs where fs: "traverse (read_csv E) ps = Inr fs"
    and c: "concat_rows E fs = Inr col"
    by auto
  have z: "zip (map fst u) (map snd u) = u" by (simp add: zip_map_fst_snd)
  from buffer_retrieve_Inr [OF ps]
  have ok: "\<forall>i < length u. \<exists>p. answer (fst (u ! i)) (snd (u ! i)) = Inr p"
    and pv: "ps = map (\<lambda>r. projr (answer (fst r) (snd r))) u"
    unfolding z by simp_all
  from traverse_Inr_length [OF fs] pv have len: "length fs = length u" by simp
  have "\<exists>p. answer (fst (u ! j)) (snd (u ! j)) = Inr p \<and> read_csv E p = Inr (fs ! j)"
    if j: "j < length u" for j
  proof -
    from ok j obtain p where p: "answer (fst (u ! j)) (snd (u ! j)) = Inr p" by auto
    from j pv have "ps ! j = projr (answer (fst (u ! j)) (snd (u ! j)))" by simp
    with p have "ps ! j = p" by simp
    moreover from j pv have "j < length ps" by simp
    from traverse_Inr_nth [OF fs this] have "read_csv E (ps ! j) = Inr (fs ! j)" .
    ultimately show ?thesis using p by auto
  qed
  with ne len c show ?thesis by blast
qed

lemma coords_plan_Inr:
  assumes "coords_plan E xy dates crs variables region time_scale pet = Inr (c, plan)"
  shows "\<exists>dm ds code.
           Daymet E variables pet time_scale region = Inr dm \<and>
           dates_itr E dm dates = Inr ds \<and>
           getitem (dm_time_codes dm) time_scale = Inr code \<and>
           u_coord_urls (restful_daymet E) (py_str_float E) code c (dm_region dm)
             (dm_variables dm) ds = Inr plan"
proof -
  from bind_err_Inr [OF assms [unfolded coords_plan_def]]
  obtain dm where dm: "Daymet E variables pet time_scale region = Inr dm"
    and r1: "bind_err (check_dates E dm dates) (\<lambda>_.
     bind_err (dates_itr E dm dates) (\<lambda>ds.
     if length xy \<noteq> 2 then Inl (InvalidInputType ''coords'' ''tuple'' ''(lon, lat)'')
     else
     bind_err (match_crs E [(xy ! 0, xy ! 1)] crs DEF_CRS) (\<lambda>cs.
     bind_err (case cs of [] \<Rightarrow> Inl IndexError | c # _ \<Rightarrow> Inr c) (\<lambda>c.
     bind_err (getitem (dm_region_bbox dm) region) (\<lambda>bbox.
     if \<not> contains bbox (Point (fst c) (snd c))
     then Inl (InvalidInputRange (dm_invalid_bbox_msg dm))
     else
     bind_err (getitem (dm_time_codes dm) time_scale) (\<lambda>code.
     bind_err (u_coord_urls (restful_daymet E) (py_str_float E) code c (dm_region dm)
                 (dm_variables dm) ds) (\<lambda>url_kwds.
     Inr (c, url_kwds)))))))) = Inr (c, plan)"
    by auto
  from bind_err_Inr [OF r1] obtain uu where
    r2: "bind_err (dates_itr E dm dates) (\<lambda>ds.
     if length xy \<noteq> 2 then Inl (InvalidInputType ''coords'' ''tuple'' ''(lon, lat)'')
     else
     bind_err (match_crs E [(xy ! 0, xy ! 1)] crs DEF_CRS) (\<lambda>cs.
     bind_err (case cs of [] \<Rightarrow> Inl IndexError | c # _ \<Rightarrow> Inr c) (\<lambda>c.
     bind_err (getitem (dm_region_bbox dm) region) (\<lambda>bbox.
     if \<not> contains bbox (Point (fst c) (snd c))
     then Inl (InvalidInputRange (dm_invalid_bbox_msg dm))
     else
     bind_err (getitem (dm_time_codes dm) time_scale) (\<lambda>code.
     bind_err (u_coord_urls (restful_daymet E) (py_str_float E) code c (dm_region dm)
                 (dm_variables dm) ds) (\<lambda>url_kwds.
     Inr (c, url_kwds))))))) = Inr (c, plan)"
    by auto
  from bind_err_Inr [OF r2] obtain ds where ds: "dates_itr E dm dates = Inr ds"
    and r3: "(if length xy \<noteq> 2
     then Inl (InvalidInputType ''coords'' ''tuple'' ''(lon, lat)'')
     else
     bind_err (match_crs E [(xy ! 0, xy ! 1)] crs DEF_CRS) (\<lambda>cs.
     bind_err (case cs of [] \<Rightarrow> Inl IndexError | c # _ \<Rightarrow> Inr c) (\<lambda>c.
     bind_err (getitem (dm_region_bbox dm) region) (\<lambda>bbox.
     if \<not> contains bbox (Point (fst c) (snd c))
     then Inl (InvalidInputRange (dm_invalid_bbox_msg dm))
     else
     bind_err (getitem (dm_time_codes dm) time_scale) (\<lambda>code.
     bind_err (u_coord_urls (restful_daymet E) (py_str_float E) code c (dm_region dm)
                 (dm_variables dm) ds) (\<lambda>url_kwds.
     Inr (c, url_kwds))))))) = Inr (c, plan)"
    by auto
  from r3 have r4: "bind_err (match_crs E [(xy ! 0, xy ! 1)] crs DEF_CRS) (\<lambda>cs.
     bind_err (case cs of [] \<Rightarrow> Inl IndexError | c # _ \<Rightarrow> Inr c) (\<lambda>c.
     bind_err (getitem (dm_region_bbox dm) region) (\<lambda>bbox.
     if \<not> contains bbox (Point (fst c) (snd c))
     then Inl (InvalidInputRange (dm_invalid_bbox_msg dm))
     else
     bind_err (getitem (dm_time_codes dm) time_scale) (\<lambda>code.
     bind_err (u_coord_urls (restful_daymet E) (py_str_float E) code c (dm_region dm)
                 (dm_variables dm) ds) (\<lambda>url_kwds.
     Inr (c, url_kwds)))))) = Inr (c, plan)"
    by (simp split: if_splits)
  from bind_err_Inr [OF r4] obtain cs where
    r5: "bind_err (case cs of [] \<Rightarrow> Inl IndexError | c # _ \<Rightarrow> Inr c) (\<lambda>c.
     bind_err (getitem (dm_region_bbox dm) region) (\<lambda>bbox.
     if \<not> contains bbox (Point (fst c) (snd c))
     then Inl (InvalidInputRange (dm_invalid_bbox_msg dm))
     else
     bind_err (getitem (dm_time_codes dm) time_scale) (\<lambda>code.
     bind_err (u_coord_urls (restful_daymet E) (py_str_float E) code c (dm_region dm)
                 (dm_variables dm) ds) (\<lambda>url_kwds.
     Inr (c, url_kwds))))) = Inr (c, plan)"
    by auto
  from bind_err_Inr [OF r5] obtain c' where
    r6: "bind_err (getitem (dm_region_bbox dm) region) (\<lambda>bbox.
     if \<not> contains bbox (Point (fst c') (snd c'))
     then Inl (InvalidInputRange (dm_invalid_bbox_msg dm))
     else
     bind_err (getitem (dm_time_codes dm) time_scale) (\<lambda>code.
     bind_err (u_coord_urls (restful_daymet E) (py_str_float E) code c' (dm_region dm)
                 (dm_variables dm) ds) (\<lambda>url_kwds.
     Inr (c', url_kwds)))) = Inr (c, plan)"
    by auto
  from bind_err_Inr [OF r6] obtain bbox where
    r7: "(if \<not> contains bbox (Point (fst c') (snd c'))
     then Inl (InvalidInputRange (dm_invalid_bbox_msg dm))
     else
     bind_err (getitem (dm_time_codes dm) time_scale) (\<lambda>code.
     bind_err (u_coord_urls (restful_daymet E) (py_str_float E) code c' (dm_region dm)
                 (dm_variables dm) ds) (\<lambda>url_kwds.
     Inr (c', url_kwds)))) = Inr (c, plan)"
    by auto
  from r7 have r8: "bind_err (getitem (dm_time_codes dm) time_scale) (\<lambda>code.
     bind_err (u_coord_urls (restful_daymet E) (py_str_float E) code c' (dm_region dm)
                 (dm_variables dm) ds) (\<lambda>url_kwds.
     Inr (c', url_kwds))) = Inr (c, plan)"
    by (simp split: if_splits)
  from bind_err_Inr [OF r8] obtain code where
    code: "getitem (dm_time_codes dm) time_scale = Inr code"
    and r9: "bind_err (u_coord_urls (restful_daymet E) (py_str_float E) code c' (dm_region dm)
                 (dm_variables dm) ds) (\<lambda>url_kwds.
     Inr (c', url_kwds)) = Inr (c, plan)"
    by auto
  from bind_err_Inr [OF r9] obtain p' where
    u: "u_coord_urls (restful_daymet E) (py_str_float E) code c' (dm_region dm)
                 (dm_variables dm) ds = Inr p'"
    and e: "Inr (c', p') = (Inr (c, plan) :: error + (real \<times> real) \<times> descriptor list list)"
    by auto
  from e have "c' = c" "p' = plan" by simp_all
  with dm ds code u show ?thesis by blast
qed


lemma get_bycoords_canonical:
  assumes g: "get_bycoords (E\<lparr>retrieve := buffer_retrieve s answer\<rparr>) xy dates crs variables
                region time_scale pet pet_params = Inr clm"
  shows "\<exists>c plan dm ds frames series raw fr.
         coords_plan E xy dates crs variables region time_scale pet = Inr (c, plan) \<and>
         Daymet E variables pet time_scale region = Inr dm \<and>
         dates_itr E dm dates = Inr ds \<and>
         length plan = length (dm_variables dm) \<and>
         length frames = length plan \<and> length series = length plan \<and>
         (\<forall>i<length plan.
            length (plan ! i) = length ds \<and> length (frames ! i) = length ds \<and>
            (\<forall>j<length ds.
               param (plan ! i ! j) ''var'' = Some (dm_variables dm ! i) \<and>
               param (plan ! i ! j) ''time_start'' = Some (strftime_DATE_REQ (fst (ds ! j))) \<and>
               param (plan ! i ! j) ''time_end'' = Some (strftime_DATE_REQ (snd (ds ! j))) \<and>
               (\<exists>p. answer (fst (plan ! i ! j)) (snd (plan ! i ! j)) = Inr p \<and>
                    read_csv E p = Inr (frames ! i ! j))) \<and>
            concat_rows E (frames ! i) = Inr (series ! i)) \<and>
         concat_cols E series = Inr raw \<and>
         fr = raw\<lparr>columns := rename_prcp (map relabel (columns raw)),
                  index := map to_date (index raw)\<rparr> \<and>
         (case pet of None \<Rightarrow> Inr fr
          | Some method \<Rightarrow> potential_et_df E fr c method pet_params) = Inr clm"
proof -
  let ?E = "E\<lparr>retrieve := buffer_retrieve s answer\<rparr>"
  from bind_err_Inr [OF g [unfolded get_bycoords_retrieve]]
  obtain p where p: "coords_plan E xy dates crs variables region time_scale pet = Inr p"
    and rest: "(case p of (c, url_kwds) \<Rightarrow>
        bind_err (assemble ?E url_kwds) (\<lambda>clm.
        case pet of None \<Rightarrow> Inr clm
        | Some method \<Rightarrow> potential_et_df E clm c method pet_params)) = Inr clm"
    by auto
  obtain c plan where pc: "p = (c, plan)" by (cases p)
  from rest pc have "bind_err (assemble ?E plan) (\<lambda>clm.
        case pet of None \<Rightarrow> Inr clm
        | Some method \<Rightarrow> potential_et_df E clm c method pet_params) = Inr clm"
    by simp
  from bind_err_Inr [OF this] obtain fr where a: "assemble ?E plan = Inr fr"
    and fin: "(case pet of None \<Rightarrow> Inr fr
          | Some method \<Rightarrow> potential_et_df E fr c method pet_params) = Inr clm"
    by auto
  from assemble_Inr [OF a] obtain series raw where
    tr: "traverse (fetch_variable ?E) (map unzip_desc plan) = Inr series"
    and raw: "concat_cols E series = Inr raw"
    and fr: "fr = raw\<lparr>columns := rename_prcp (map relabel (columns raw)),
                  index := map to_date (index raw)\<rparr>"
    by auto
  from traverse_Inr_length [OF tr] have ls: "length series = length plan" by simp
  have each: "fetch_variable ?E (unzip_desc (plan ! i)) = Inr (series ! i)"
    if "i < length plan" for i
    using traverse_Inr_nth [OF tr, of i] that by simp
  from coords_plan_Inr [OF p [unfolded pc]] obtain dm ds code where
    dm: "Daymet E variables pet time_scale region = Inr dm"
    and ds: "dates_itr E dm dates = Inr ds"
    and u: "u_coord_urls (restful_daymet E) (py_str_float E) code c (dm_region dm)
             (dm_variables dm) ds = Inr plan"
    by blast
  from u have tu: "traverse (\<lambda>v. traverse (coord_descriptor (restful_daymet E) (py_str_float E)
                     code c (dm_region dm) v) ds) (dm_variables dm) = Inr plan"
    by (simp add: u_coord_urls_def)
  from traverse_Inr_length [OF tu] have lp: "length plan = length (dm_variables dm)" .
  have row: "length (plan ! i) = length ds" if "i < length plan" for i
    using traverse_Inr_length [OF traverse_Inr_nth [OF tu, of i]] that lp by simp
  have par: "param (plan ! i ! j) ''var'' = Some (dm_variables dm ! i) \<and>
             param (plan ! i ! j) ''time_start'' = Some (strftime_DATE_REQ (fst (ds ! j))) \<and>
             param (plan ! i ! j) ''time_end'' = Some (strftime_DATE_REQ (snd (ds ! j)))"
    if i: "i < length plan" and j: "j < length ds" for i j
  proof -
    from i lp have "i < length (dm_variables dm)" by simp
    from u_coord_urls_nth [OF u this j]
    have "snd (plan ! i ! j) =
        [(''params'', coord_params (py_str_float E) (fst c) (snd c) (dm_variables dm ! i)
                        (ds ! j))]"
      by (simp add: coord_descriptor_Inr)
    then show ?thesis by (rule param_coord)
  qed
  have "\<forall>i<length plan. \<exists>fs. length fs = length ds \<and>
           (\<forall>j<length ds. \<exists>p. answer (fst (plan ! i ! j)) (snd (plan ! i ! j)) = Inr p \<and>
                               read_csv E p = Inr (fs ! j)) \<and>
           concat_rows E fs = Inr (series ! i)"
  proof (intro allI impI)
    fix i assume i: "i < length plan"
    from fetch_variable_buffer_Inr [OF each [OF i]] row [OF i]
    show "\<exists>fs. length fs = length ds \<and>
           (\<forall>j<length ds. \<exists>p. answer (fst (plan ! i ! j)) (snd (plan ! i ! j)) = Inr p \<and>
                               read_csv E p = Inr (fs ! j)) \<and>
           concat_rows E fs = Inr (series ! i)"
      by simp
  qed
  from list_choice [OF this] obtain frames where lf: "length frames = length plan"
    and fr_each: "\<forall>i<length plan. length (frames ! i) = length ds \<and>
           (\<forall>j<length ds. \<exists>p. answer (fst (plan ! i ! j)) (snd (plan ! i ! j)) = Inr p \<and>
                               read_csv E p = Inr (frames ! i ! j)) \<and>
           concat_rows E (frames ! i) = Inr (series ! i)"
    by blast
  have all: "\<forall>i<length plan.
            length (plan ! i) = length ds \<and> length (frames ! i) = length ds \<and>
            (\<forall>j<length ds.
               param (plan ! i ! j) ''var'' = Some (dm_variables dm ! i) \<and>
               param (plan ! i ! j) ''time_start'' = Some (strftime_DATE_REQ (fst (ds ! j))) \<and>
               param (plan ! i ! j) ''time_end'' = Some (strftime_DATE_REQ (snd (ds ! j))) \<and>
               (\<exists>p. answer (fst (plan ! i ! j)) (snd (plan ! i ! j)) = Inr p \<and>
                    read_csv E p = Inr (frames ! i ! j))) \<and>
            concat_rows E (frames ! i) = Inr (series ! i)"
    using row par fr_each by simp
  note facts = p [unfolded pc] dm ds lp lf ls all raw fr fin
  show ?thesis
    by (rule exI [of _ c], rule exI [of _ plan], rule exI [of _ dm], rule exI [of _ ds],
        rule exI [of _ frames], rule exI [of _ series], rule exI [of _ raw],
        rule exI [of _ fr])
       (intro conjI facts)
qed


text \<open>
  Claim C8. With the transport of the specification (each fetch writes into the slot of
  its request), the frame \<open>get_bycoords\<close> assembles is determined by the request plan
  and not by the order in which fetches complete. If a run with the completion order
  \<open>s1\<close> returns a frame, then a run over the same requests and payloads with any other
  completion order \<open>s2\<close> returns the same frame, and so does the run that fetches the
  requests one after the other in plan order. That frame is assembled in the canonical
  order of the plan: entry \<open>i\<close>, \<open>j\<close> of the plan is the request of the \<open>i\<close>-th variable
  and the \<open>j\<close>-th window, the \<open>j\<close>-th frame handed to the row-wise concatenation for
  variable \<open>i\<close> is decoded from the payload of that request, and the \<open>i\<close>-th frame
  handed to the column-wise concatenation is the series of variable \<open>i\<close>. Where the
  row-wise concatenation appends the indexes and the column-wise one appends the column
  labels, as the specification says of them, the rows of each series follow the window
  order and the columns follow the variable order.
\<close>

theorem assembly_independent_of_completion_order:
  "((\<forall>u. covers s2 u) \<and>
    get_bycoords (E\<lparr>retrieve := buffer_retrieve s1 answer\<rparr>) xy dates crs variables region
      time_scale pet pet_params = Inr clm
    \<longrightarrow> get_bycoords (E\<lparr>retrieve := buffer_retrieve s2 answer\<rparr>) xy dates crs variables
          region time_scale pet pet_params = Inr clm) \<and>
   (get_bycoords (E\<lparr>retrieve := buffer_retrieve s1 answer\<rparr>) xy dates crs variables region
      time_scale pet pet_params = Inr clm
    \<longrightarrow> get_bycoords (E\<lparr>retrieve := sequential_retrieve answer\<rparr>) xy dates crs variables
          region time_scale pet pet_params = Inr clm) \<and>
   (get_bycoords (E\<lparr>retrieve := buffer_retrieve s1 answer\<rparr>) xy dates crs variables region
      time_scale pet pet_params = Inr clm
    \<longrightarrow> (\<exists>c plan dm ds frames series raw fr.
         (coords_plan E xy dates crs variables region time_scale pet = Inr (c, plan) \<and>
         Daymet E variables pet time_scale region = Inr dm \<and>
         dates_itr E dm dates = Inr ds \<and>
         length plan = length (dm_variables dm) \<and>
         length frames = length plan \<and> length series = length plan \<and>
         (\<forall>i<length plan.
            length (plan ! i) = length ds \<and> length (frames ! i) = length ds \<and>
            (\<forall>j<length ds.
               param (plan ! i ! j) ''var'' = Some (dm_variables dm ! i) \<and>
               param (plan ! i ! j) ''time_start'' = Some (strftime_DATE_REQ (fst (ds ! j))) \<and>
               param (plan ! i ! j) ''time_end'' = Some (strftime_DATE_REQ (snd (ds ! j))) \<and>
               (\<exists>p. answer (fst (plan ! i ! j)) (snd (plan ! i ! j)) = Inr p \<and>
                    read_csv E p = Inr (frames ! i ! j))) \<and>
            concat_rows E (frames ! i) = Inr (series ! i)) \<and>
         concat_cols E series = Inr raw \<and>
         fr = raw\<lparr>columns := rename_prcp (map relabel (columns raw)),
                  index := map to_date (index raw)\<rparr> \<and>
         (case pet of None \<Rightarrow> Inr fr
          | Some method \<Rightarrow> potential_et_df E fr c method pet_params) = Inr clm) \<and>
         ((\<forall>fs f. concat_rows E fs = Inr f \<longrightarrow> index f = concat (map index fs)) \<longrightarrow>
            (\<forall>i<length plan. index (series ! i) = concat (map index (frames ! i)))) \<and>
         ((\<forall>fs f. concat_cols E fs = Inr f \<longrightarrow> columns f = concat (map columns fs)) \<longrightarrow>
            columns raw = concat (map columns series))))"
proof (intro conjI impI)
  assume h: "(\<forall>u. covers s2 u) \<and>
    get_bycoords (E\<lparr>retrieve := buffer_retrieve s1 answer\<rparr>) xy dates crs variables region
      time_scale pet pet_params = Inr clm"
  then have cov: "covers s2 u" for u by simp
  from h have g: "get_bycoords (E\<lparr>retrieve := buffer_retrieve s1 answer\<rparr>) xy dates crs
      variables region time_scale pet pet_params = Inr clm" by simp
  show "get_bycoords (E\<lparr>retrieve := buffer_retrieve s2 answer\<rparr>) xy dates crs variables
          region time_scale pet pet_params = Inr clm"
    using g by (rule get_bycoords_transfer [rotated]) (rule buffer_retrieve_any_order [OF cov])
next
  assume g: "get_bycoords (E\<lparr>retrieve := buffer_retrieve s1 answer\<rparr>) xy dates crs
      variables region time_scale pet pet_params = Inr clm"
  show "get_bycoords (E\<lparr>retrieve := sequential_retrieve answer\<rparr>) xy dates crs variables
          region time_scale pet pet_params = Inr clm"
    using g by (rule get_bycoords_transfer [rotated]) (rule buffer_retrieve_sequential)
next
  assume g: "get_bycoords (E\<lparr>retrieve := buffer_retrieve s1 answer\<rparr>) xy dates crs
      variables region time_scale pet pet_params = Inr clm"
  from get_bycoords_canonical [OF g] obtain c plan dm ds frames series raw fr where
    canon: "coords_plan E xy dates crs variables region time_scale pet = Inr (c, plan) \<and>
         Daymet E variables pet time_scale region = Inr dm \<and>
         dates_itr E dm dates = Inr ds \<and>
         length plan = length (dm_variables dm) \<and>
         length frames = length plan \<and> length series = length plan \<and>
         (\<forall>i<length plan.
            length (plan ! i) = length ds \<and> length (frames ! i) = length ds \<and>
            (\<forall>j<length ds.
               param (plan ! i ! j) ''var'' = Some (dm_variables dm ! i) \<and>
               param (plan ! i ! j) ''time_start'' = Some (strftime_DATE_REQ (fst (ds ! j))) \<and>
               param (plan ! i ! j) ''time_end'' = Some (strftime_DATE_REQ (snd (ds ! j))) \<and>
               (\<exists>p. answer (fst (plan ! i ! j)) (snd (plan ! i ! j)) = Inr p \<and>
                    read_csv E p = Inr (frames ! i ! j))) \<and>
            concat_rows E (frames ! i) = Inr (series ! i)) \<and>
         concat_cols E series = Inr raw \<and>
         fr = raw\<lparr>columns := rename_prcp (map relabel (columns raw)),
                  index := map to_date (index raw)\<rparr> \<and>
         (case pet of None \<Rightarrow> Inr fr
          | Some method \<Rightarrow> potential_et_df E fr c method pet_params) = Inr clm"
    by blast
  then have rows: "\<forall>i<length plan. concat_rows E (frames ! i) = Inr (series ! i)"
    and raw: "concat_cols E series = Inr raw"
    by simp_all
  have c1: "(\<forall>fs f. concat_rows E fs = Inr f \<longrightarrow> index f = concat (map index fs)) \<longrightarrow>
            (\<forall>i<length plan. index (series ! i) = concat (map index (frames ! i)))"
    using rows by simp
  have c2: "(\<forall>fs f. concat_cols E fs = Inr f \<longrightarrow> columns f = concat (map columns fs)) \<longrightarrow>
            columns raw = concat (map columns series)"
    using raw by simp
  show "\<exists>c plan dm ds frames series raw fr.
         (coords_plan E xy dates crs variables region time_scale pet = Inr (c, plan) \<and>
         Daymet E variables pet time_scale region = Inr dm \<and>
         dates_itr E dm dates = Inr ds \<and>
         length plan = length (dm_variables dm) \<and>
         length frames = length plan \<and> length series = length plan \<and>
         (\<forall>i<length plan.
            length (plan ! i) = length ds \<and> length (frames ! i) = length ds \<and>
            (\<forall>j<length ds.
               param (plan ! i ! j) ''var'' = Some (dm_variables dm ! i) \<and>
               param (plan ! i ! j) ''time_start'' = Some (strftime_DATE_REQ (fst (ds ! j))) \<and>
               param (plan ! i ! j) ''time_end'' = Some (strftime_DATE_REQ (snd (ds ! j))) \<and>
               (\<exists>p. answer (fst (plan ! i ! j)) (snd (plan ! i ! j)) = Inr p \<and>
                    read_csv E p = Inr (frames ! i ! j))) \<and>
            concat_rows E (frames ! i) = Inr (series ! i)) \<and>
         concat_cols E series = Inr raw \<and>
         fr = raw\<lparr>columns := rename_prcp (map relabel (columns raw)),
                  index := map to_date (index raw)\<rparr> \<and>
         (case pet of None \<Rightarrow> Inr fr
          | Some method \<Rightarrow> potential_et_df E fr c method pet_params) = Inr clm) \<and>
         ((\<forall>fs f. concat_rows E fs = Inr f \<longrightarrow> index f = concat (map index fs)) \<longrightarrow>
            (\<forall>i<length plan. index (series ! i) = concat (map index (frames ! i)))) \<and>
         ((\<forall>fs f. concat_cols E fs = Inr f \<longrightarrow> columns f = concat (map columns fs)) \<longrightarrow>
            columns raw = concat (map columns series))"
    by (rule exI [of _ c], rule exI [of _ plan], rule exI [of _ dm], rule exI [of _ ds],
        rule exI [of _ frames], rule exI [of _ series], rule exI [of _ raw],
        rule exI [of _ fr])
       (rule conjI, rule canon, rule conjI, rule c1, rule c2)
qed


lemma example_descriptor_2001:
  "coord_descriptor ''h'' (\<lambda>x. ''0'') 1840 (- 100, 40) ''na'' ''prcp'' (year_window 2001) =
     Inr (''h/1840/daymet_v4_daily_na_prcp_2001.nc'',
          [(''params'',
            [(''var'', ''prcp''), (''longitude'', ''0''), (''latitude'', ''0''),
             (''time_start'', ''2001-01-01T00:00:00Z''),
             (''time_end'', ''2001-12-31T00:00:00Z''), (''accept'', ''csv'')])])"
  by (simp add: coord_descriptor_def bind_err_def request_url_def u_get_filename_def
      coord_params_def strftime_DATE_REQ_def year_window_def pad2_def str_int_def
      str_nat.simps digit_char_def)

lemma example_frame_prcp_2001:
  \<open>example_frame ''h/1840/daymet_v4_daily_na_prcp_2001.nc'' =
     \<lparr>index = [\<lparr>year = 2001, month = 1, day = 1, hour = 12, minute = 0, second = 0\<rparr>],
      columns = [''prcp[unit="mm"]''],
      cells = [[Some 1]]\<rparr>\<close>
  by (simp add: example_frame_def)

lemma example_descriptor_tmin:
  "coord_descriptor ''h'' (\<lambda>x. ''0'') 1840 (- 100, 40) ''na'' ''tmin'' (year_window 2000) =
     Inr (''h/1840/daymet_v4_daily_na_tmin_2000.nc'',
               [(''params'',
                 [(''var'', ''tmin''), (''longitude'', ''0''), (''latitude'', ''0''),
                  (''time_start'', ''2000-01-01T00:00:00Z''),
                  (''time_end'', ''2000-12-31T00:00:00Z''), (''accept'', ''csv'')])])"
  "coord_descriptor ''h'' (\<lambda>x. ''0'') 1840 (- 100, 40) ''na'' ''tmin'' (year_window 2001) =
     Inr (''h/1840/daymet_v4_daily_na_tmin_2001.nc'',
               [(''params'',
                 [(''var'', ''tmin''), (''longitude'', ''0''), (''latitude'', ''0''),
                  (''time_start'', ''2001-01-01T00:00:00Z''),
                  (''time_end'', ''2001-12-31T00:00:00Z''), (''accept'', ''csv'')])])"
  by (simp_all add: coord_descriptor_def bind_err_def request_url_def u_get_filename_def
      coord_params_def strftime_DATE_REQ_def year_window_def pad2_def str_int_def
      str_nat.simps digit_char_def)

lemma example_plan_two_by_two:
  "coords_plan example_env [- 100, 40] (DatesYear 2000) DEF_CRS None ''na'' ''daily'' None =
   Inr ((- 100, 40),
        [[(''h/1840/daymet_v4_daily_na_prcp_2000.nc'',
           [(''params'',
             [(''var'', ''prcp''), (''longitude'', ''0''), (''latitude'', ''0''),
              (''time_start'', ''2000-01-01T00:00:00Z''),
              (''time_end'', ''2000-12-31T00:00:00Z''), (''accept'', ''csv'')])]),
          (''h/1840/daymet_v4_daily_na_prcp_2001.nc'',
           [(''params'',
             [(''var'', ''prcp''), (''longitude'', ''0''), (''latitude'', ''0''),
              (''time_start'', ''2001-01-01T00:00:00Z''),
              (''time_end'', ''2001-12-31T00:00:00Z''), (''accept'', ''csv'')])])],
         [(''h/1840/daymet_v4_daily_na_tmin_2000.nc'',
           [(''params'',
             [(''var'', ''tmin''), (''longitude'', ''0''), (''latitude'', ''0''),
              (''time_start'', ''2000-01-01T00:00:00Z''),
              (''time_end'', ''2000-12-31T00:00:00Z''), (''accept'', ''csv'')])]),
          (''h/1840/daymet_v4_daily_na_tmin_2001.nc'',
           [(''params'',
             [(''var'', ''tmin''), (''longitude'', ''0''), (''latitude'', ''0''),
              (''time_start'', ''2001-01-01T00:00:00Z''),
              (''time_end'', ''2001-12-31T00:00:00Z''), (''accept'', ''csv'')])])]])"
proof -
  have dm: "dm_time_codes (example_daymet None ''na'') =
              [(''daily'', 1840), (''monthly'', 1855), (''annual'', 1852)]"
    "dm_region (example_daymet None ''na'') = ''na''"
    "dm_variables (example_daymet None ''na'') = [''prcp'', ''tmin'']"
    by (simp_all add: example_daymet_def)
  have code: "getitem [(''daily'', 1840), (''monthly'', 1855), (''annual'', 1852)] ''daily''
                = Inr (1840::int)"
    by (simp add: getitem_def)
  show ?thesis
    by (simp add: coords_plan_def bind_err_def dates_itr_def example_env_plan
        example_region_check dm code u_coord_urls_def example_descriptor
        example_descriptor_2001 example_descriptor_tmin)
qed

lemma example_frame_tmin:
  \<open>example_frame ''h/1840/daymet_v4_daily_na_tmin_2000.nc'' =
     \<lparr>index = [\<lparr>year = 2000, month = 1, day = 1, hour = 12, minute = 0, second = 0\<rparr>],
      columns = [''tmin[unit="degrees C"]''],
      cells = [[Some 1]]\<rparr>\<close>
  \<open>example_frame ''h/1840/daymet_v4_daily_na_tmin_2001.nc'' =
     \<lparr>index = [\<lparr>year = 2001, month = 1, day = 1, hour = 12, minute = 0, second = 0\<rparr>],
      columns = [''tmin[unit="degrees C"]''],
      cells = [[Some 1]]\<rparr>\<close>
  by (simp_all add: example_frame_def)

lemma example_buffer_identity:
  assumes "covers s u" and "length k = length u"
  shows "buffer_retrieve s (\<lambda>url k. Inr url) u k = Inr u"
proof -
  have "buffer_retrieve s (\<lambda>url k. Inr url) u k =
          Inr (map (\<lambda>r. projr ((Inr (fst r)) :: error + string)) (zip u k))"
    using assms(1) by (intro buffer_retrieve_total) simp_all
  also have "map (\<lambda>r. projr ((Inr (fst r)) :: error + string)) (zip u k) = map fst (zip u k)"
    by simp
  also have "\<dots> = u" using assms(2) by simp
  finally show ?thesis .
qed

lemma example_schedules:
  "covers (\<lambda>u. [0..<length u]) u"
  "covers (\<lambda>u. rev [0..<length u]) u"
  by (simp_all add: covers_def list_all_iff)

lemma example_run_two_by_two:
  assumes r: "\<And>u k. length k = length u \<Longrightarrow> r u k = Inr u"
  shows "get_bycoords (example_env\<lparr>retrieve := r\<rparr>) [- 100, 40] (DatesYear 2000) DEF_CRS
           None ''na'' ''daily'' None None =
     Inr \<lparr>index = [\<lparr>year = 2000, month = 1, day = 1, hour = 0, minute = 0, second = 0\<rparr>,
                   \<lparr>year = 2001, month = 1, day = 1, hour = 0, minute = 0, second = 0\<rparr>],
          columns = [''prcp (mm/day)'', ''tmin (degrees C)''],
          cells = [[Some 1], [Some 1]]\<rparr>"
proof -
  have f1: \<open>fetch_variable (example_env\<lparr>retrieve := r\<rparr>)
              (unzip_desc [(''h/1840/daymet_v4_daily_na_prcp_2000.nc'', k0),
                           (''h/1840/daymet_v4_daily_na_prcp_2001.nc'', k1)]) =
     Inr \<lparr>index = [\<lparr>year = 2000, month = 1, day = 1, hour = 12, minute = 0, second = 0\<rparr>,
                   \<lparr>year = 2001, month = 1, day = 1, hour = 12, minute = 0, second = 0\<rparr>],
          columns = [''prcp[unit="mm"]''],
          cells = [[Some 1], [Some 1]]\<rparr>\<close> for k0 k1
    by (simp add: fetch_variable_def unzip_desc_def bind_err_def r example_env_point
        example_frame_prcp example_frame_prcp_2001)
  have f2: \<open>fetch_variable (example_env\<lparr>retrieve := r\<rparr>)
              (unzip_desc [(''h/1840/daymet_v4_daily_na_tmin_2000.nc'', k0),
                           (''h/1840/daymet_v4_daily_na_tmin_2001.nc'', k1)]) =
     Inr \<lparr>index = [\<lparr>year = 2000, month = 1, day = 1, hour = 12, minute = 0, second = 0\<rparr>,
                   \<lparr>year = 2001, month = 1, day = 1, hour = 12, minute = 0, second = 0\<rparr>],
          columns = [''tmin[unit="degrees C"]''],
          cells = [[Some 1], [Some 1]]\<rparr>\<close> for k0 k1
    by (simp add: fetch_variable_def unzip_desc_def bind_err_def r example_env_point
        example_frame_tmin)
  show ?thesis
    by (simp add: get_bycoords_retrieve example_plan_two_by_two bind_err_def assemble_def
        f1 f2 example_env_point relabel_examples rename_prcp_def to_date_def)
qed


lemma example_concat_contracts:
  "\<forall>fs f. concat_rows example_env fs = Inr f \<longrightarrow> index f = concat (map index fs)"
  "\<forall>fs f. concat_cols example_env fs = Inr f \<longrightarrow> columns f = concat (map columns fs)"
  by (auto simp add: example_env_point split: list.splits)

theorem assembly_independent_of_completion_order_witness:
  "get_bycoords
     (example_env\<lparr>retrieve := buffer_retrieve (\<lambda>u. [0..<length u]) (\<lambda>url k. Inr url)\<rparr>)
     [- 100, 40] (DatesYear 2000) DEF_CRS None ''na'' ''daily'' None None =
     Inr \<lparr>index = [\<lparr>year = 2000, month = 1, day = 1, hour = 0, minute = 0, second = 0\<rparr>,
                   \<lparr>year = 2001, month = 1, day = 1, hour = 0, minute = 0, second = 0\<rparr>],
          columns = [''prcp (mm/day)'', ''tmin (degrees C)''],
          cells = [[Some 1], [Some 1]]\<rparr> \<and>
   get_bycoords
     (example_env\<lparr>retrieve := buffer_retrieve (\<lambda>u. rev [0..<length u]) (\<lambda>url k. Inr url)\<rparr>)
     [- 100, 40] (DatesYear 2000) DEF_CRS None ''na'' ''daily'' None None =
     Inr \<lparr>index = [\<lparr>year = 2000, month = 1, day = 1, hour = 0, minute = 0, second = 0\<rparr>,
                   \<lparr>year = 2001, month = 1, day = 1, hour = 0, minute = 0, second = 0\<rparr>],
          columns = [''prcp (mm/day)'', ''tmin (degrees C)''],
          cells = [[Some 1], [Some 1]]\<rparr> \<and>
   get_bycoords
     (example_env\<lparr>retrieve := sequential_retrieve (\<lambda>url k. Inr url)\<rparr>)
     [- 100, 40] (DatesYear 2000) DEF_CRS None ''na'' ''daily'' None None =
     Inr \<lparr>index = [\<lparr>year = 2000, month = 1, day = 1, hour = 0, minute = 0, second = 0\<rparr>,
                   \<lparr>year = 2001, month = 1, day = 1, hour = 0, minute = 0, second = 0\<rparr>],
          columns = [''prcp (mm/day)'', ''tmin (degrees C)''],
          cells = [[Some 1], [Some 1]]\<rparr> \<and>
   (\<exists>(plan :: descriptor list list) (frames :: frame list list) series raw.
      length plan = 2 \<and> length series = length plan \<and>
      concat_cols example_env series = Inr raw \<and>
      columns raw = concat (map columns series) \<and>
      (\<forall>i<length plan. index (series ! i) = concat (map index (frames ! i))))"
proof -
  have cov: "\<forall>u. covers (\<lambda>u. rev [0..<length u]) u"
    by (simp add: example_schedules)
  have run1: "get_bycoords
     (example_env\<lparr>retrieve := buffer_retrieve (\<lambda>u. [0..<length u]) (\<lambda>url k. Inr url)\<rparr>)
     [- 100, 40] (DatesYear 2000) DEF_CRS None ''na'' ''daily'' None None =
     Inr \<lparr>index = [\<lparr>year = 2000, month = 1, day = 1, hour = 0, minute = 0, second = 0\<rparr>,
                   \<lparr>year = 2001, month = 1, day = 1, hour = 0, minute = 0, second = 0\<rparr>],
          columns = [''prcp (mm/day)'', ''tmin (degrees C)''],
          cells = [[Some 1], [Some 1]]\<rparr>"
    by (rule example_run_two_by_two) (rule example_buffer_identity [OF example_schedules(1)])
  note inst = assembly_independent_of_completion_order
      [where ?s1.0 = "\<lambda>u. [0..<length u]" and ?s2.0 = "\<lambda>u. rev [0..<length u]"
         and answer = "\<lambda>url k. Inr url" and E = example_env]
  note run2 = inst [THEN conjunct1, THEN mp, OF conjI, OF cov run1]
  note run3 = inst [THEN conjunct2, THEN conjunct1, THEN mp, OF run1]
  from inst [THEN conjunct2, THEN conjunct2, THEN mp, OF run1]
  have ex: "\<exists>(plan :: descriptor list list) (frames :: frame list list) series raw.
      length plan = 2 \<and> length series = length plan \<and>
      concat_cols example_env series = Inr raw \<and>
      columns raw = concat (map columns series) \<and>
      (\<forall>i<length plan. index (series ! i) = concat (map index (frames ! i)))"
  proof (elim exE conjE)
    fix c plan dm ds and frames :: "frame list list" and series raw fr
    assume p: "coords_plan example_env [- 100, 40] (DatesYear 2000) DEF_CRS None ''na''
                 ''daily'' None = Inr (c, plan)"
      and ls: "length series = length plan"
      and raw: "concat_cols example_env series = Inr raw"
      and c1: "(\<forall>fs f. concat_rows example_env fs = Inr f \<longrightarrow>
                  index f = concat (map index fs))
             \<longrightarrow> (\<forall>i<length plan. index (series ! i) = concat (map index (frames ! i)))"
      and c2: "(\<forall>fs f. concat_cols example_env fs = Inr f \<longrightarrow>
                columns f = concat (map columns fs))
             \<longrightarrow> columns raw = concat (map columns series)"
    from p have lp: "length plan = 2"
      by (auto simp add: example_plan_two_by_two)
    from c1 example_concat_contracts(1)
    have rows: "\<forall>i<length plan. index (series ! i) = concat (map index (frames ! i))"
      by (rule mp)
    from c2 example_concat_contracts(2)
    have cols: "columns raw = concat (map columns series)"
      by (rule mp)
    show "\<exists>(plan :: descriptor list list) (frames :: frame list list) series raw.
      length plan = 2 \<and> length series = length plan \<and>
      concat_cols example_env series = Inr raw \<and>
      columns raw = concat (map columns series) \<and>
      (\<forall>i<length plan. index (series ! i) = concat (map index (frames ! i)))"
      by (rule exI [of _ plan], rule exI [of _ frames], rule exI [of _ series],
          rule exI [of _ raw]) (intro conjI lp ls raw cols rows)
  qed
  show ?thesis by (intro conjI run1 run2 run3 ex)
qed

section \<open>Grid mode: properties\<close>

lemma except_ValueError_simps:
  "except_ValueError (Inl ValueError) = Inl (ServiceError service_msg)"
  "except_ValueError (Inr x) = Inr x"
  by (simp_all add: except_ValueError_def)

lemma fetch_merge_ValueError:
  assumes "retrieve E urls kwds = Inl ValueError \<or>
           (\<exists>ps. retrieve E urls kwds = Inr ps \<and> open_mfdataset E ps = Inl ValueError)"
  shows "fetch_merge E urls kwds = Inl (ServiceError service_msg)"
  using assms
  by (auto simp add: fetch_merge_def bind_err_def except_ValueError_simps)

text \<open>
  Claim C5. In \<open>get_bygeom\<close>, once the request plan is built, a \<open>ValueError\<close> raised
  while the payloads are fetched and merged (by the multi-file open, or by the transport
  it reads from) makes the whole call fail with the one \<open>ServiceError\<close> of the source;
  the result is that error and no dataset.
\<close>

theorem merge_failure_is_service_error:
  "gridded_plan E geometry dates crs variables region time_scale pet
     = Inr (dm, g, urls, kwds) \<and>
   (retrieve E urls kwds = Inl ValueError \<or>
    (\<exists>ps. retrieve E urls kwds = Inr ps \<and> open_mfdataset E ps = Inl ValueError))
   \<longrightarrow> get_bygeom E geometry dates crs variables region time_scale pet pet_params
         = Inl (ServiceError service_msg) \<and>
       (\<forall>ds. get_bygeom E geometry dates crs variables region time_scale pet pet_params
              \<noteq> Inr ds)"
proof
  assume h: "gridded_plan E geometry dates crs variables region time_scale pet
     = Inr (dm, g, urls, kwds) \<and>
   (retrieve E urls kwds = Inl ValueError \<or>
    (\<exists>ps. retrieve E urls kwds = Inr ps \<and> open_mfdataset E ps = Inl ValueError))"
  then have "fetch_merge E urls kwds = Inl (ServiceError service_msg)"
    by (intro fetch_merge_ValueError) simp
  with h have "get_bygeom E geometry dates crs variables region time_scale pet pet_params
         = Inl (ServiceError service_msg)"
    by (simp add: get_bygeom_def bind_err_def)
  then show "get_bygeom E geometry dates crs variables region time_scale pet pet_params
         = Inl (ServiceError service_msg) \<and>
       (\<forall>ds. get_bygeom E geometry dates crs variables region time_scale pet pet_params
              \<noteq> Inr ds)"
    by simp
qed

lemma example_env_grid:
  "geo2polygon example_env =
     (\<lambda>g crs_in crs_out.
        case g of GeomShape sh \<Rightarrow> Inr sh
        | GeomBBox w s e n \<Rightarrow> Inr (Polygon [(w, s), (e, s), (e, n), (w, n)]))"
  "intersects example_env = (\<lambda>g b. True)"
  "bounds example_env = (\<lambda>g. (0, 0, 1, 1))"
  "open_mfdataset example_env = (\<lambda>ps. Inr example_dataset)"
  "get_transform example_env =
     (\<lambda>ds. Inr \<lparr>aff_a = 1, aff_b = 0, aff_c = 0, aff_d = 0, aff_e = - 1, aff_f = 0\<rparr>)"
  "potential_et_ds example_env = (\<lambda>ds method ps. Inr (XrDataset ds))"
  "xarray_geomask example_env = (\<lambda>obj g crs. Inr obj)"
  by (simp_all add: example_env_def)

lemma example_gridded_descriptor:
  "gridded_descriptor ''h'' (\<lambda>x. ''0'') 1840 (0, 0, 1, 1) ''na'' (''prcp'', year_window 2000) =
     Inr (''h/1840/daymet_v4_daily_na_prcp_2000.nc'',
          [(''params'',
            [(''var'', ''prcp''), (''north'', ''0''), (''west'', ''0''), (''east'', ''0''),
             (''south'', ''0''), (''disableProjSubset'', ''on''), (''horizStride'', ''1''),
             (''time_start'', ''2000-01-01T00:00:00Z''),
             (''time_end'', ''2000-12-31T00:00:00Z''), (''timeStride'', ''1''),
             (''addLatLon'', ''true''), (''accept'', ''netcdf'')])])"
  by (simp add: gridded_descriptor_def bind_err_def request_url_def u_get_filename_def
      gridded_params_def strftime_DATE_REQ_def year_window_def pad2_def str_int_def
      str_nat.simps digit_char_def)

lemma example_gridded_plan:
  "gridded_plan example_env (GeomBBox (- 100) 40 (- 99) 41)
     (DatesTuple ''2000-01-01'' ''2000-12-31'') DEF_CRS (Some [''prcp'']) ''na'' ''daily'' None =
   Inr (example_daymet (Some [''prcp'']) ''na'',
        Polygon [(- 100, 40), (- 99, 40), (- 99, 41), (- 100, 41)],
        [''h/1840/daymet_v4_daily_na_prcp_2000.nc''],
        [[(''params'',
            [(''var'', ''prcp''), (''north'', ''0''), (''west'', ''0''), (''east'', ''0''),
             (''south'', ''0''), (''disableProjSubset'', ''on''), (''horizStride'', ''1''),
             (''time_start'', ''2000-01-01T00:00:00Z''),
             (''time_end'', ''2000-12-31T00:00:00Z''), (''timeStride'', ''1''),
             (''addLatLon'', ''true''), (''accept'', ''netcdf'')])]])"
proof -
  have dm: "dm_time_codes (example_daymet (Some [''prcp'']) ''na'') =
              [(''daily'', 1840), (''monthly'', 1855), (''annual'', 1852)]"
    "dm_region (example_daymet (Some [''prcp'']) ''na'') = ''na''"
    "dm_variables (example_daymet (Some [''prcp'']) ''na'') = [''prcp'']"
    by (simp_all add: example_daymet_def)
  have code: "getitem [(''daily'', 1840), (''monthly'', 1855), (''annual'', 1852)] ''daily''
                = Inr (1840::int)"
    by (simp add: getitem_def)
  show ?thesis
    by (simp add: gridded_plan_def bind_err_def dates_itr_def example_env_plan
        example_env_grid example_region_check dm code u_gridded_urls_def
        example_gridded_descriptor)
qed


lemma env_open_mfdataset_other:
  "Daymet (E\<lparr>open_mfdataset := f\<rparr>) = Daymet E"
  "check_dates (E\<lparr>open_mfdataset := f\<rparr>) = check_dates E"
  "dates_tolist (E\<lparr>open_mfdataset := f\<rparr>) = dates_tolist E"
  "years_tolist (E\<lparr>open_mfdataset := f\<rparr>) = years_tolist E"
  "geo2polygon (E\<lparr>open_mfdataset := f\<rparr>) = geo2polygon E"
  "intersects (E\<lparr>open_mfdataset := f\<rparr>) = intersects E"
  "bounds (E\<lparr>open_mfdataset := f\<rparr>) = bounds E"
  "restful_daymet (E\<lparr>open_mfdataset := f\<rparr>) = restful_daymet E"
  "py_str_float (E\<lparr>open_mfdataset := f\<rparr>) = py_str_float E"
  "retrieve (E\<lparr>open_mfdataset := f\<rparr>) = retrieve E"
  by simp_all

lemma gridded_plan_open_mfdataset:
  "gridded_plan (E\<lparr>open_mfdataset := f\<rparr>) geometry dates crs variables region time_scale pet
     = gridded_plan E geometry dates crs variables region time_scale pet"
  unfolding gridded_plan_def dates_itr_def env_open_mfdataset_other ..

theorem merge_failure_is_service_error_witness:
  "get_bygeom (example_env\<lparr>open_mfdataset := (\<lambda>ps. Inl ValueError)\<rparr>)
     (GeomBBox (- 100) 40 (- 99) 41) (DatesTuple ''2000-01-01'' ''2000-12-31'') DEF_CRS
     (Some [''prcp'']) ''na'' ''daily'' None None = Inl (ServiceError service_msg)"
proof -
  let ?E = "example_env\<lparr>open_mfdataset := (\<lambda>ps. Inl ValueError)\<rparr>"
  let ?urls = "[''h/1840/daymet_v4_daily_na_prcp_2000.nc'']"
  have plan: "gridded_plan ?E (GeomBBox (- 100) 40 (- 99) 41)
     (DatesTuple ''2000-01-01'' ''2000-12-31'') DEF_CRS (Some [''prcp'']) ''na'' ''daily'' None =
   Inr (example_daymet (Some [''prcp'']) ''na'',
        Polygon [(- 100, 40), (- 99, 40), (- 99, 41), (- 100, 41)],
        ?urls,
        [[(''params'',
            [(''var'', ''prcp''), (''north'', ''0''), (''west'', ''0''), (''east'', ''0''),
             (''south'', ''0''), (''disableProjSubset'', ''on''), (''horizStride'', ''1''),
             (''time_start'', ''2000-01-01T00:00:00Z''),
             (''time_end'', ''2000-12-31T00:00:00Z''), (''timeStride'', ''1''),
             (''addLatLon'', ''true''), (''accept'', ''netcdf'')])]])"
    unfolding gridded_plan_open_mfdataset by (rule example_gridded_plan)
  have fail: "retrieve ?E ?urls ks = Inl ValueError \<or>
    (\<exists>ps. retrieve ?E ?urls ks = Inr ps \<and> open_mfdataset ?E ps = Inl ValueError)" for ks
    by (simp add: example_env_point)
  from merge_failure_is_service_error [THEN mp, OF conjI, OF plan fail, THEN conjunct1]
  show ?thesis .
qed

lemma update_attrs_names: "map fst (update_attrs name key val vs) = map fst vs"
  by (induction vs) (auto simp add: update_attrs_def)

lemma set_units_names: "variable_names (set_units us ds) = variable_names ds"
  by (induction us arbitrary: ds)
     (auto simp add: variable_names_def update_attrs_names)

lemma filter_names:
  "map fst (filter (\<lambda>(n, da). n \<noteq> name) vs) = filter (\<lambda>n. n \<noteq> name) (map fst vs)"
  by (induction vs) auto

lemma drop_vars_Inr:
  assumes "drop_vars name ds = Inr ds'"
  shows "name \<in> set (variable_names ds)"
    and "variable_names ds' = filter (\<lambda>n. n \<noteq> name) (variable_names ds)"
    and "attrs ds' = attrs ds"
  using assms
  by (auto simp add: drop_vars_def variable_names_def filter_names split: if_splits)

lemma normalize_Inr:
  assumes "normalize_merged E dm merged = Inr clm"
  shows "''lambert_conformal_conic'' \<in> set (variable_names merged)"
    and "variable_names clm =
           filter (\<lambda>n. n \<noteq> ''lambert_conformal_conic'') (variable_names merged)"
    and "attrs clm ''crs'' = Some (AStr daymet_crs)"
    and "attrs clm ''nodatavals'' = Some (AFloats [0])"
    and "\<exists>pre t. get_transform E pre = Inr t \<and>
           attrs clm ''transform'' = Some (ATransform t) \<and>
           attrs clm ''res'' = Some (AFloats [aff_a t, aff_e t])"
proof -
  from assms obtain clm1 where d: "drop_vars ''lambert_conformal_conic''
      (set_units (dm_units dm) merged) = Inr clm1"
    and rest: "(let clm2 = clm1\<lparr>attrs := (attrs clm1)(''crs'' \<mapsto> AStr daymet_crs,
                                            ''nodatavals'' \<mapsto> AFloats [0])\<rparr> in
     bind_err (get_transform E clm2) (\<lambda>transform.
     Inr (clm2\<lparr>attrs := (attrs clm2)(''transform'' \<mapsto> ATransform transform,
                                      ''res'' \<mapsto> AFloats [aff_a transform, aff_e transform])\<rparr>)))
       = Inr clm"
    unfolding normalize_merged_def by (blast dest: bind_err_Inr)
  define clm2 where "clm2 = clm1\<lparr>attrs := (attrs clm1)(''crs'' \<mapsto> AStr daymet_crs,
                                            ''nodatavals'' \<mapsto> AFloats [0])\<rparr>"
  from rest have "bind_err (get_transform E clm2) (\<lambda>transform.
     Inr (clm2\<lparr>attrs := (attrs clm2)(''transform'' \<mapsto> ATransform transform,
                                      ''res'' \<mapsto> AFloats [aff_a transform, aff_e transform])\<rparr>))
       = Inr clm"
    by (simp add: clm2_def Let_def)
  from bind_err_Inr [OF this] obtain t where t: "get_transform E clm2 = Inr t"
    and clm: "clm = clm2\<lparr>attrs := (attrs clm2)(''transform'' \<mapsto> ATransform t,
                                      ''res'' \<mapsto> AFloats [aff_a t, aff_e t])\<rparr>"
    by auto
  from drop_vars_Inr [OF d]
  show "''lambert_conformal_conic'' \<in> set (variable_names merged)"
    by (simp add: set_units_names)
  have "variable_names clm = variable_names clm1"
    by (simp add: clm clm2_def variable_names_def)
  with drop_vars_Inr(2) [OF d]
  show "variable_names clm =
           filter (\<lambda>n. n \<noteq> ''lambert_conformal_conic'') (variable_names merged)"
    by (simp add: set_units_names)
  show "attrs clm ''crs'' = Some (AStr daymet_crs)"
    by (simp add: clm clm2_def)
  show "attrs clm ''nodatavals'' = Some (AFloats [0])"
    by (simp add: clm clm2_def)
  show "\<exists>pre t. get_transform E pre = Inr t \<and>
           attrs clm ''transform'' = Some (ATransform t) \<and>
           attrs clm ''res'' = Some (AFloats [aff_a t, aff_e t])"
    using t by (intro exI [of _ clm2] exI [of _ t]) (simp add: clm)
qed

lemma propagate_Dataset:
  "\<exists>ds'. propagate (XrDataset ds) = XrDataset ds' \<and>
     attrs ds' = attrs ds \<and> coords ds' = coords ds \<and>
     map fst (data_vars ds') = map fst (data_vars ds) \<and>
     list_all (\<lambda>nda. da_attrs (snd nda) ''crs'' = Some (AStr daymet_crs) \<and>
                     da_attrs (snd nda) ''nodatavals'' = Some (AFloats [0]))
       (data_vars ds')"
  by (auto simp add: propagate_def list_all_iff)

lemma daymet_crs_value:
  "daymet_crs =
     ''+proj=lcc +lat_1=25 +lat_2=60 +lat_0=42.5 +lon_0=-100 +x_0=0 +y_0=0 +ellps=WGS84 +units=km +no_defs''"
  by (simp add: daymet_crs_def)


lemma get_bygeom_Inr:
  assumes "get_bygeom E geometry dates crs variables region time_scale pet pet_params
             = Inr result"
  shows "\<exists>dm g urls kwds merged clm obj.
        gridded_plan E geometry dates crs variables region time_scale pet
          = Inr (dm, g, urls, kwds) \<and>
        fetch_merge E urls kwds = Inr merged \<and>
        normalize_merged E dm merged = Inr clm \<and>
        (case pet of None \<Rightarrow> Inr (XrDataset clm)
         | Some method \<Rightarrow> potential_et_ds E clm method pet_params) = Inr obj \<and>
        xarray_geomask E (propagate obj) g DEF_CRS = Inr result"
proof -
  from bind_err_Inr [OF assms [unfolded get_bygeom_def]]
  obtain p where p: "gridded_plan E geometry dates crs variables region time_scale pet = Inr p"
    and r1: "(case p of (dm, g, urls, kwds) \<Rightarrow>
       bind_err (fetch_merge E urls kwds) (\<lambda>merged.
       bind_err (normalize_merged E dm merged) (\<lambda>clm.
       bind_err (case pet of None \<Rightarrow> Inr (XrDataset clm)
                 | Some method \<Rightarrow> potential_et_ds E clm method pet_params) (\<lambda>obj.
       xarray_geomask E (propagate obj) g DEF_CRS)))) = Inr result"
    by auto
  obtain dm g urls kwds where pc: "p = (dm, g, urls, kwds)" by (cases p)
  from r1 pc have "bind_err (fetch_merge E urls kwds) (\<lambda>merged.
       bind_err (normalize_merged E dm merged) (\<lambda>clm.
       bind_err (case pet of None \<Rightarrow> Inr (XrDataset clm)
                 | Some method \<Rightarrow> potential_et_ds E clm method pet_params) (\<lambda>obj.
       xarray_geomask E (propagate obj) g DEF_CRS))) = Inr result"
    by simp
  from bind_err_Inr [OF this] obtain merged where m: "fetch_merge E urls kwds = Inr merged"
    and r2: "bind_err (normalize_merged E dm merged) (\<lambda>clm.
       bind_err (case pet of None \<Rightarrow> Inr (XrDataset clm)
                 | Some method \<Rightarrow> potential_et_ds E clm method pet_params) (\<lambda>obj.
       xarray_geomask E (propagate obj) g DEF_CRS)) = Inr result"
    by auto
  from bind_err_Inr [OF r2] obtain clm where n: "normalize_merged E dm merged = Inr clm"
    and r3: "bind_err (case pet of None \<Rightarrow> Inr (XrDataset clm)
                 | Some method \<Rightarrow> potential_et_ds E clm method pet_params) (\<lambda>obj.
       xarray_geomask E (propagate obj) g DEF_CRS) = Inr result"
    by auto
  from bind_err_Inr [OF r3] obtain obj where
    o: "(case pet of None \<Rightarrow> Inr (XrDataset clm)
         | Some method \<Rightarrow> potential_et_ds E clm method pet_params) = Inr obj"
    and k: "xarray_geomask E (propagate obj) g DEF_CRS = Inr result"
    by auto
  from p pc m n o k show ?thesis by blast
qed

text \<open>
  Claim C7. A dataset that \<open>get_bygeom\<close> returns is the mask applied to a dataset
  normalized after the merge: the variable \<open>lambert_conformal_conic\<close> is dropped, the
  dataset-level attribute \<open>crs\<close> is the fixed Lambert Conformal Conic string,
  \<open>nodatavals\<close> is \<open>(0.0,)\<close>, \<open>transform\<close> is the affine transform computed for the
  dataset (and \<open>res\<close> its two scale entries), and, before the mask is applied, every data
  variable of the dataset carries the same \<open>crs\<close> and \<open>nodatavals\<close>.
\<close>

theorem post_merge_metadata:
  "(get_bygeom E geometry dates crs variables region time_scale pet pet_params = Inr result
    \<longrightarrow>
     (\<exists>dm g urls kwds merged clm obj.
        gridded_plan E geometry dates crs variables region time_scale pet
          = Inr (dm, g, urls, kwds) \<and>
        fetch_merge E urls kwds = Inr merged \<and>
        normalize_merged E dm merged = Inr clm \<and>
        ''lambert_conformal_conic'' \<in> set (variable_names merged) \<and>
        variable_names clm =
          filter (\<lambda>n. n \<noteq> ''lambert_conformal_conic'') (variable_names merged) \<and>
        attrs clm ''crs'' = Some (AStr daymet_crs) \<and>
        attrs clm ''nodatavals'' = Some (AFloats [0]) \<and>
        (\<exists>pre t. get_transform E pre = Inr t \<and>
           attrs clm ''transform'' = Some (ATransform t) \<and>
           attrs clm ''res'' = Some (AFloats [aff_a t, aff_e t])) \<and>
        (case pet of None \<Rightarrow> Inr (XrDataset clm)
         | Some method \<Rightarrow> potential_et_ds E clm method pet_params) = Inr obj \<and>
        (\<forall>ds. obj = XrDataset ds \<longrightarrow>
           (\<exists>ds'. propagate obj = XrDataset ds' \<and>
              attrs ds' = attrs ds \<and> coords ds' = coords ds \<and>
              map fst (data_vars ds') = map fst (data_vars ds) \<and>
              list_all (\<lambda>nda. da_attrs (snd nda) ''crs'' = Some (AStr daymet_crs) \<and>
                              da_attrs (snd nda) ''nodatavals'' = Some (AFloats [0]))
                (data_vars ds'))) \<and>
        xarray_geomask E (propagate obj) g DEF_CRS = Inr result)) \<and>
   daymet_crs =
     ''+proj=lcc +lat_1=25 +lat_2=60 +lat_0=42.5 +lon_0=-100 +x_0=0 +y_0=0 +ellps=WGS84 +units=km +no_defs''"
proof (intro conjI impI)
  assume "get_bygeom E geometry dates crs variables region time_scale pet pet_params
            = Inr result"
  from get_bygeom_Inr [OF this] obtain dm g urls kwds merged clm obj where
    p: "gridded_plan E geometry dates crs variables region time_scale pet
          = Inr (dm, g, urls, kwds)"
    and m: "fetch_merge E urls kwds = Inr merged"
    and n: "normalize_merged E dm merged = Inr clm"
    and o: "(case pet of None \<Rightarrow> Inr (XrDataset clm)
         | Some method \<Rightarrow> potential_et_ds E clm method pet_params) = Inr obj"
    and k: "xarray_geomask E (propagate obj) g DEF_CRS = Inr result"
    by blast
  have pr: "\<forall>ds. obj = XrDataset ds \<longrightarrow>
           (\<exists>ds'. propagate obj = XrDataset ds' \<and>
              attrs ds' = attrs ds \<and> coords ds' = coords ds \<and>
              map fst (data_vars ds') = map fst (data_vars ds) \<and>
              list_all (\<lambda>nda. da_attrs (snd nda) ''crs'' = Some (AStr daymet_crs) \<and>
                              da_attrs (snd nda) ''nodatavals'' = Some (AFloats [0]))
                (data_vars ds'))"
    using propagate_Dataset by simp
  note facts = p m n normalize_Inr [OF n] o pr k
  show "\<exists>dm g urls kwds merged clm obj.
        gridded_plan E geometry dates crs variables region time_scale pet
          = Inr (dm, g, urls, kwds) \<and>
        fetch_merge E urls kwds = Inr merged \<and>
        normalize_merged E dm merged = Inr clm \<and>
        ''lambert_conformal_conic'' \<in> set (variable_names merged) \<and>
        variable_names clm =
          filter (\<lambda>n. n \<noteq> ''lambert_conformal_conic'') (variable_names merged) \<and>
        attrs clm ''crs'' = Some (AStr daymet_crs) \<and>
        attrs clm ''nodatavals'' = Some (AFloats [0]) \<and>
        (\<exists>pre t. get_transform E pre = Inr t \<and>
           attrs clm ''transform'' = Some (ATransform t) \<and>
           attrs clm ''res'' = Some (AFloats [aff_a t, aff_e t])) \<and>
        (case pet of None \<Rightarrow> Inr (XrDataset clm)
         | Some method \<Rightarrow> potential_et_ds E clm method pet_params) = Inr obj \<and>
        (\<forall>ds. obj = XrDataset ds \<longrightarrow>
           (\<exists>ds'. propagate obj = XrDataset ds' \<and>
              attrs ds' = attrs ds \<and> coords ds' = coords ds \<and>
              map fst (data_vars ds') = map fst (data_vars ds) \<and>
              list_all (\<lambda>nda. da_attrs (snd nda) ''crs'' = Some (AStr daymet_crs) \<and>
                              da_attrs (snd nda) ''nodatavals'' = Some (AFloats [0]))
                (data_vars ds'))) \<and>
        xarray_geomask E (propagate obj) g DEF_CRS = Inr result"
    by (rule exI [of _ dm], rule exI [of _ g], rule exI [of _ urls], rule exI [of _ kwds],
        rule exI [of _ merged], rule exI [of _ clm], rule exI [of _ obj])
       (intro conjI facts)
next
  show "daymet_crs =
     ''+proj=lcc +lat_1=25 +lat_2=60 +lat_0=42.5 +lon_0=-100 +x_0=0 +y_0=0 +ellps=WGS84 +units=km +no_defs''"
    by (rule daymet_crs_value)
qed


lemma example_fetch_merge:
  "fetch_merge example_env urls kwds = Inr example_dataset"
  by (simp add: fetch_merge_def bind_err_def except_ValueError_def example_env_point
      example_env_grid)

lemma example_normalize:
  "\<exists>clm. normalize_merged example_env (example_daymet vs r) example_dataset = Inr clm"
  by (simp add: normalize_merged_def drop_vars_def example_dataset_def example_daymet_def
      variable_names_def update_attrs_def bind_err_def example_env_grid Let_def)

lemma example_get_bygeom:
  "\<exists>result. get_bygeom example_env (GeomBBox (- 100) 40 (- 99) 41)
     (DatesTuple ''2000-01-01'' ''2000-12-31'') DEF_CRS (Some [''prcp'']) ''na'' ''daily''
     None None = Inr result"
proof -
  from example_normalize obtain clm where
    "normalize_merged example_env (example_daymet (Some [''prcp'']) ''na'') example_dataset
       = Inr clm"
    by blast
  then show ?thesis
    by (simp add: get_bygeom_def example_gridded_plan bind_err_def example_fetch_merge
        example_env_grid)
qed

theorem post_merge_metadata_witness:
  "\<exists>result ds. get_bygeom example_env (GeomBBox (- 100) 40 (- 99) 41)
       (DatesTuple ''2000-01-01'' ''2000-12-31'') DEF_CRS (Some [''prcp'']) ''na'' ''daily''
       None None = Inr result \<and>
     result = XrDataset ds \<and>
     variable_names ds = [''prcp'', ''x''] \<and>
     attrs ds ''crs'' = Some (AStr daymet_crs) \<and>
     attrs ds ''nodatavals'' = Some (AFloats [0]) \<and>
     list_all (\<lambda>nda. da_attrs (snd nda) ''crs'' = Some (AStr daymet_crs) \<and>
                     da_attrs (snd nda) ''nodatavals'' = Some (AFloats [0]))
       (data_vars ds)"
proof -
  from example_get_bygeom obtain result where run:
    "get_bygeom example_env (GeomBBox (- 100) 40 (- 99) 41)
       (DatesTuple ''2000-01-01'' ''2000-12-31'') DEF_CRS (Some [''prcp'']) ''na'' ''daily''
       None None = Inr result"
    by blast
  from post_merge_metadata [THEN conjunct1, THEN mp, OF run]
  obtain dm g urls kwds merged clm obj where
    m: "fetch_merge example_env urls kwds = Inr merged"
    and names: "variable_names clm =
          filter (\<lambda>n. n \<noteq> ''lambert_conformal_conic'') (variable_names merged)"
    and crs: "attrs clm ''crs'' = Some (AStr daymet_crs)"
    and nodata: "attrs clm ''nodatavals'' = Some (AFloats [0])"
    and o: "(case None :: string option of None \<Rightarrow> Inr (XrDataset clm)
         | Some method \<Rightarrow> potential_et_ds example_env clm method None) = Inr obj"
    and pr: "\<forall>ds. obj = XrDataset ds \<longrightarrow>
           (\<exists>ds'. propagate obj = XrDataset ds' \<and>
              attrs ds' = attrs ds \<and> coords ds' = coords ds \<and>
              map fst (data_vars ds') = map fst (data_vars ds) \<and>
              list_all (\<lambda>nda. da_attrs (snd nda) ''crs'' = Some (AStr daymet_crs) \<and>
                              da_attrs (snd nda) ''nodatavals'' = Some (AFloats [0]))
                (data_vars ds'))"
    and k: "xarray_geomask example_env (propagate obj) g DEF_CRS = Inr result"
    by blast
  from m have merged: "merged = example_dataset" by (simp add: example_fetch_merge)
  from o have obj: "obj = XrDataset clm" by simp
  with pr obtain ds where ds: "propagate obj = XrDataset ds"
    and a: "attrs ds = attrs clm" and c: "coords ds = coords clm"
    and n: "map fst (data_vars ds) = map fst (data_vars clm)"
    and each: "list_all (\<lambda>nda. da_attrs (snd nda) ''crs'' = Some (AStr daymet_crs) \<and>
                              da_attrs (snd nda) ''nodatavals'' = Some (AFloats [0]))
                (data_vars ds)"
    by blast
  from k ds have res: "result = XrDataset ds" by (simp add: example_env_grid)
  have "variable_names ds = variable_names clm"
    by (simp add: variable_names_def n c)
  with names merged have vn: "variable_names ds = [''prcp'', ''x'']"
    by (simp add: variable_names_def example_dataset_def)
  from run res vn a crs nodata each show ?thesis by simp
qed

end
